theory Spec2Isabelle
  imports Main "HOL-Library.Word"
begin

section \<open>The wire text written by encoding/xml\<close>

text \<open>
  The client of \<^verbatim>\<open>dhl/client.go\<close> builds its requests with \<^verbatim>\<open>xml.MarshalIndent\<close> and
  reads its responses with \<^verbatim>\<open>xml.Unmarshal\<close>. Both are driven by the struct tags of
  \<^verbatim>\<open>dhl/types.go\<close>. A Go string is a sequence of bytes, here a \<^typ>\<open>string\<close>.

  No tag of \<^verbatim>\<open>types.go\<close> has a namespace part, so the printer writes every start
  tag and attribute name as the text of its tag (\<^verbatim>\<open>soapenv:Envelope\<close>,
  \<^verbatim>\<open>xmlns:ns\<close>): the marshalled element tree carries plain names.
\<close>

datatype xml_out =
    OutElement string "(string \<times> string) list" "xml_out list"
  | OutText string

fun is_OutElement :: "xml_out \<Rightarrow> bool" where
  "is_OutElement (OutElement _ _ _) = True"
| "is_OutElement (OutText _) = False"

subsection \<open>Escaping of text and attribute values\<close>

definition RuneError :: nat where
  "RuneError = 0xFFFD"

text \<open>
  \<^verbatim>\<open>utf8.DecodeRuneInString\<close>: the first rune of the bytes and its width. An
  ill-formed sequence decodes to \<^verbatim>\<open>(RuneError, 1)\<close>.
\<close>

fun DecodeRune :: "nat list \<Rightarrow> nat \<times> nat" where
  "DecodeRune [] = (RuneError, 0)"
| "DecodeRune (s0 # rest) =
     (if s0 < 0x80 then (s0, 1)
      else if s0 < 0xC2 \<or> 0xF4 < s0 then (RuneError, 1)
      else
        let sz = (if s0 < 0xE0 then 2 else if s0 < 0xF0 then 3 else (4::nat));
            lo = (if s0 = 0xE0 then 0xA0 else if s0 = 0xF0 then 0x90 else 0x80);
            hi = (if s0 = 0xED then 0x9F else if s0 = 0xF4 then 0x8F else 0xBF)
        in if length (s0 # rest) < sz then (RuneError, 1)
           else
             let s1 = rest ! 0 in
             if s1 < lo \<or> hi < s1 then (RuneError, 1)
             else if sz \<le> 2 then ((s0 mod 0x20) * 0x40 + s1 mod 0x40, 2)
             else
               let s2 = rest ! 1 in
               if s2 < 0x80 \<or> 0xBF < s2 then (RuneError, 1)
               else if sz \<le> 3
                 then ((s0 mod 0x10) * 0x1000 + (s1 mod 0x40) * 0x40 + s2 mod 0x40, 3)
               else
                 let s3 = rest ! 2 in
                 if s3 < 0x80 \<or> 0xBF < s3 then (RuneError, 1)
                 else ((s0 mod 8) * 0x40000 + (s1 mod 0x40) * 0x1000
                         + (s2 mod 0x40) * 0x40 + s3 mod 0x40, 4))"

declare DecodeRune.simps(2) [simp del]

text \<open>\<^verbatim>\<open>isInCharacterRange\<close>: the code points XML 1.0 admits.\<close>

definition isInCharacterRange :: "nat \<Rightarrow> bool" where
  "isInCharacterRange r \<longleftrightarrow>
     r = 0x09 \<or> r = 0x0A \<or> r = 0x0D \<or> (0x20 \<le> r \<and> r \<le> 0xD7FF)
     \<or> (0xE000 \<le> r \<and> r \<le> 0xFFFD) \<or> (0x10000 \<le> r \<and> r \<le> 0x10FFFF)"

definition escFFFD :: string where
  "escFFFD = [CHR 0xEF, CHR 0xBF, CHR 0xBD]"

text \<open>
  The \<^verbatim>\<open>switch\<close> of \<^verbatim>\<open>printer.EscapeString\<close>: the replacement written for a rune, or
  \<open>None\<close> when the rune is copied as it is. A rune outside the character range, and
  an ill-formed byte, is replaced by U+FFFD.
\<close>

definition escape_of :: "nat \<Rightarrow> nat \<Rightarrow> string option" where
  "escape_of r width =
     (if r = 0x22 then Some ''&#34;''
      else if r = 0x27 then Some ''&#39;''
      else if r = 0x26 then Some ''&amp;''
      else if r = 0x3C then Some ''&lt;''
      else if r = 0x3E then Some ''&gt;''
      else if r = 0x09 then Some ''&#x9;''
      else if r = 0x0A then Some ''&#xA;''
      else if r = 0x0D then Some ''&#xD;''
      else if \<not> isInCharacterRange r \<or> (r = RuneError \<and> width = 1) then Some escFFFD
      else None)"

text \<open>
  The loop of \<^verbatim>\<open>EscapeString\<close> walks the string rune by rune (\<^verbatim>\<open>i += width\<close>). The
  first argument counts the bytes of the current rune that are still to be stepped
  over.
\<close>

fun escape_from :: "nat \<Rightarrow> string \<Rightarrow> string" where
  "escape_from _ [] = []"
| "escape_from (Suc k) (c # cs) = escape_from k cs"
| "escape_from 0 (c # cs) =
     (case DecodeRune (map of_char (c # cs)) of (r, width) \<Rightarrow>
        (case escape_of r width of
           Some esc \<Rightarrow> esc
         | None \<Rightarrow> take width (c # cs)) @ escape_from (width - 1) cs)"

definition EscapeString :: "string \<Rightarrow> string" where
  "EscapeString s = escape_from 0 s"

subsection \<open>The indenting printer\<close>

text \<open>
  \<^verbatim>\<open>xml.MarshalIndent(v, "", "  ")\<close>: every start tag goes on a line of its own,
  indented by two spaces per level; an end tag goes on a line of its own only when
  the element has child elements (\<^verbatim>\<open>printer.writeIndent\<close>). Go never writes a
  self-closing tag.
\<close>

definition newline :: string where
  "newline = [CHR 0x0A]"

definition indent :: "nat \<Rightarrow> string" where
  "indent depth = concat (replicate depth ''  '')"

definition print_attr :: "string \<times> string \<Rightarrow> string" where
  "print_attr a = '' '' @ fst a @ ''=\"'' @ EscapeString (snd a) @ ''\"''"

fun print_out :: "nat \<Rightarrow> xml_out \<Rightarrow> string"
  and print_kids :: "nat \<Rightarrow> xml_out list \<Rightarrow> string" where
  "print_out depth (OutText s) = EscapeString s"
| "print_out depth (OutElement name attrs kids) =
     ''<'' @ name @ concat (map print_attr attrs) @ ''>''
     @ print_kids (Suc depth) kids
     @ (if list_ex is_OutElement kids then newline @ indent depth else [])
     @ ''</'' @ name @ ''>''"
| "print_kids depth [] = []"
| "print_kids depth (k # ks) =
     (if is_OutElement k then newline @ indent depth else [])
     @ print_out depth k @ print_kids depth ks"

definition xml_Header :: string where
  "xml_Header = ''<?xml version=\"1.0\" encoding=\"UTF-8\"?>'' @ newline"

subsection \<open>Numbers and booleans as text\<close>

text \<open>\<^verbatim>\<open>strconv.FormatInt(v, 10)\<close> and \<^verbatim>\<open>strconv.FormatBool\<close>.\<close>

fun digits :: "nat \<Rightarrow> string" where
  "digits n =
     (if n < 10 then [''0123456789'' ! n]
      else digits (n div 10) @ [''0123456789'' ! (n mod 10)])"

declare digits.simps [simp del]

definition FormatInt :: "int \<Rightarrow> string" where
  "FormatInt i = (if i < 0 then ''-'' @ digits (nat (- i)) else digits (nat i))"

definition FormatBool :: "bool \<Rightarrow> string" where
  "FormatBool b = (if b then ''true'' else ''false'')"

section \<open>The request types of types.go\<close>

text \<open>
  Go's \<^verbatim>\<open>int\<close> is a 64-bit two's complement integer and \<^verbatim>\<open>float64\<close> a 64-bit IEEE 754
  value: both are \<^typ>\<open>64 word\<close>, the integer read with \<^const>\<open>sint\<close>, the float kept as
  its bit pattern. The decimal text of a float (\<^verbatim>\<open>strconv.FormatFloat(f, 'g', -1, 64)\<close>)
  is supplied by the environment below.
\<close>

record AuthData =
  Username :: string
  Password :: string

record Address =
  Country :: string
  Name :: string
  PostalCode :: string
  City :: string
  Street :: string
  HouseNumber :: string
  ApartmentNumber :: string
  ContactPerson :: string
  ContactPhone :: string
  ContactEmail :: string

record Piece =
  Type :: string
  Quantity :: "64 word"
  Weight :: "64 word"

record PieceList =
  Items :: "Piece list"

record Payment =
  PaymentType :: string
  PayerType :: string
  AccountNumber :: string
  PaymentMethod :: string

record Service =
  Product :: string

record ShipmentItem =
  Shipper :: Address
  Receiver :: Address
  PieceList :: PieceList
  Payment :: Payment
  Service :: Service
  ShipmentDate :: string
  SkipRestrictionCheck :: bool
  Comment :: string
  Content :: string

record Shipments =
  Items :: "ShipmentItem list"

text \<open>
  The three request structs carry an \<^verbatim>\<open>XMLName\<close> field that is never set nor read:
  only its tag counts, which names the element. \<^verbatim>\<open>GetVersionRequest\<close> has no other
  field.
\<close>

record CreateShipmentsRequest =
  AuthData :: AuthData
  Shipments :: Shipments

record GetMyShipmentsRequest =
  AuthData :: AuthData
  CreatedFrom :: string
  CreatedTo :: string
  Offset :: "64 word"

text \<open>
  \<^verbatim>\<open>marshalSOAPRequest\<close> takes its body as \<^verbatim>\<open>interface{}\<close>; the client passes it one of
  three structs.
\<close>

datatype payload =
    GetVersionPayload
  | CreateShipmentsPayload CreateShipmentsRequest
  | GetMyShipmentsPayload GetMyShipmentsRequest

record SOAPBody =
  Content :: payload

record SOAPEnvelope =
  Soapenv :: string
  NS :: string
  Body :: SOAPBody

subsection \<open>Marshalling by the struct tags\<close>

text \<open>
  A field of a simple type becomes an element named by its tag that holds the
  field's text; a field tagged \<^verbatim>\<open>omitempty\<close> is left out when it is empty; a slice
  becomes one element per entry, with no enclosing tag of its own.
\<close>

definition leaf :: "string \<Rightarrow> string \<Rightarrow> xml_out" where
  "leaf tag s = OutElement tag [] [OutText s]"

definition omitempty :: "string \<Rightarrow> string \<Rightarrow> xml_out list" where
  "omitempty tag s = (if s = [] then [] else [leaf tag s])"

definition marshal_AuthData :: "string \<Rightarrow> AuthData \<Rightarrow> xml_out" where
  "marshal_AuthData tag a =
     OutElement tag [] [leaf ''username'' (Username a), leaf ''password'' (Password a)]"

definition marshal_Address :: "string \<Rightarrow> Address \<Rightarrow> xml_out" where
  "marshal_Address tag a =
     OutElement tag []
       (omitempty ''country'' (Country a)
        @ [leaf ''name'' (Address.Name a),
           leaf ''postalCode'' (Address.PostalCode a),
           leaf ''city'' (Address.City a),
           leaf ''street'' (Address.Street a),
           leaf ''houseNumber'' (Address.HouseNumber a)]
        @ omitempty ''apartmentNumber'' (Address.ApartmentNumber a)
        @ omitempty ''contactPerson'' (Address.ContactPerson a)
        @ [leaf ''contactPhone'' (Address.ContactPhone a),
           leaf ''contactEmail'' (Address.ContactEmail a)])"

definition marshal_Piece :: "(64 word \<Rightarrow> string) \<Rightarrow> string \<Rightarrow> Piece \<Rightarrow> xml_out" where
  "marshal_Piece fmtFloat tag p =
     OutElement tag []
       [leaf ''type'' (Type p),
        leaf ''quantity'' (FormatInt (sint (Quantity p))),
        leaf ''weight'' (fmtFloat (Weight p))]"

definition marshal_PieceList :: "(64 word \<Rightarrow> string) \<Rightarrow> string \<Rightarrow> PieceList \<Rightarrow> xml_out" where
  "marshal_PieceList fmtFloat tag l =
     OutElement tag [] (map (marshal_Piece fmtFloat ''item'') (PieceList.Items l))"

definition marshal_Payment :: "string \<Rightarrow> Payment \<Rightarrow> xml_out" where
  "marshal_Payment tag p =
     OutElement tag []
       [leaf ''paymentType'' (PaymentType p),
        leaf ''payerType'' (PayerType p),
        leaf ''accountNumber'' (AccountNumber p),
        leaf ''paymentMethod'' (PaymentMethod p)]"

definition marshal_Service :: "string \<Rightarrow> Service \<Rightarrow> xml_out" where
  "marshal_Service tag s = OutElement tag [] [leaf ''product'' (Product s)]"

definition marshal_ShipmentItem :: "(64 word \<Rightarrow> string) \<Rightarrow> string \<Rightarrow> ShipmentItem \<Rightarrow> xml_out" where
  "marshal_ShipmentItem fmtFloat tag x =
     OutElement tag []
       [marshal_Address ''shipper'' (Shipper x),
        marshal_Address ''receiver'' (Receiver x),
        marshal_PieceList fmtFloat ''pieceList'' (PieceList x),
        marshal_Payment ''payment'' (Payment x),
        marshal_Service ''service'' (Service x),
        leaf ''shipmentDate'' (ShipmentDate x),
        leaf ''skipRestrictionCheck'' (FormatBool (SkipRestrictionCheck x)),
        leaf ''comment'' (Comment x),
        leaf ''content'' (ShipmentItem.Content x)]"

definition marshal_Shipments :: "(64 word \<Rightarrow> string) \<Rightarrow> string \<Rightarrow> Shipments \<Rightarrow> xml_out" where
  "marshal_Shipments fmtFloat tag s =
     OutElement tag [] (map (marshal_ShipmentItem fmtFloat ''item'') (Shipments.Items s))"

text \<open>
  The element of a payload is named by the tag of its \<^verbatim>\<open>XMLName\<close> field, which takes
  precedence over the name of the field \<^verbatim>\<open>Content\<close> that holds it.
\<close>

fun marshal_payload :: "(64 word \<Rightarrow> string) \<Rightarrow> payload \<Rightarrow> xml_out" where
  "marshal_payload fmtFloat GetVersionPayload = OutElement ''ns:getVersion'' [] []"
| "marshal_payload fmtFloat (CreateShipmentsPayload r) =
     OutElement ''ns:createShipments'' []
       [marshal_AuthData ''authData'' (CreateShipmentsRequest.AuthData r),
        marshal_Shipments fmtFloat ''shipments'' (Shipments r)]"
| "marshal_payload fmtFloat (GetMyShipmentsPayload r) =
     OutElement ''ns:getMyShipments'' []
       [marshal_AuthData ''authData'' (GetMyShipmentsRequest.AuthData r),
        leaf ''createdFrom'' (CreatedFrom r),
        leaf ''createdTo'' (CreatedTo r),
        leaf ''offset'' (FormatInt (sint (Offset r)))]"

definition marshal_SOAPEnvelope :: "(64 word \<Rightarrow> string) \<Rightarrow> SOAPEnvelope \<Rightarrow> xml_out" where
  "marshal_SOAPEnvelope fmtFloat e =
     OutElement ''soapenv:Envelope''
       [(''xmlns:soapenv'', Soapenv e), (''xmlns:ns'', NS e)]
       [OutElement ''soapenv:Header'' [] [],
        OutElement ''soapenv:Body'' [] [marshal_payload fmtFloat (SOAPBody.Content (Body e))]]"

text \<open>
  \<^verbatim>\<open>xml.MarshalIndent\<close> fails only on a value it cannot marshal (a channel, a
  function); the payload structs hold strings, integers, floats and booleans.
\<close>

definition xml_MarshalIndent :: "(64 word \<Rightarrow> string) \<Rightarrow> SOAPEnvelope \<Rightarrow> string + string" where
  "xml_MarshalIndent fmtFloat e = Inr (print_out 0 (marshal_SOAPEnvelope fmtFloat e))"

section \<open>The response types of types.go\<close>

text \<open>
  What \<^verbatim>\<open>xml.Unmarshal\<close> reads: an element has a name (\<^verbatim>\<open>xml.Name\<close>: the namespace
  the prefix stands for, and the local name), attributes and content; the content is
  element children and character data (comments and processing instructions are
  passed over by \<^verbatim>\<open>Unmarshal\<close>).
\<close>

datatype xml_Name = XName (Space: string) (Local: string)

datatype xml_node =
    Element xml_Name "(xml_Name \<times> string) list" "xml_node list"
  | CharData string

record GetVersionResponse =
  Version :: string

record CreatedShipment =
  ShipmentID :: string
  ShipmentNo :: string
  OrderStatus :: string

record CreateShipmentsResult =
  Items :: "CreatedShipment list"

record CreateShipmentsResponse =
  Result :: CreateShipmentsResult

record AddressInfo =
  Name :: string
  PostalCode :: string
  City :: string
  Street :: string
  HouseNumber :: string
  ApartmentNumber :: string
  ContactPerson :: string
  ContactPhone :: string
  ContactEmail :: string

record ShipmentBasicData =
  ShipmentID :: string
  Created :: string
  Shipper :: AddressInfo
  Receiver :: AddressInfo
  OrderStatus :: string

record GetMyShipmentsResult =
  Items :: "ShipmentBasicData list"

record GetMyShipmentsResponse =
  Result :: GetMyShipmentsResult

text \<open>A nil pointer of \<^verbatim>\<open>SOAPResponseBody\<close> is \<open>None\<close>.\<close>

record SOAPResponseBody =
  GetVersionResponse :: "GetVersionResponse option"
  CreateShipmentsResponse :: "CreateShipmentsResponse option"
  GetMyShipmentsResponse :: "GetMyShipmentsResponse option"

record SOAPResponseEnvelope =
  XMLName :: xml_Name
  Body :: SOAPResponseBody

record GetMyShipmentsBody =
  Response :: GetMyShipmentsResponse

record GetMyShipmentsEnvelope =
  XMLName :: xml_Name
  Body :: GetMyShipmentsBody

subsection \<open>Zero values\<close>

definition zero_Name :: xml_Name where
  "zero_Name = XName [] []"

definition zero_GetVersionResponse :: GetVersionResponse where
  "zero_GetVersionResponse = \<lparr>Version = []\<rparr>"

definition zero_CreatedShipment :: CreatedShipment where
  "zero_CreatedShipment =
     \<lparr>CreatedShipment.ShipmentID = [], ShipmentNo = [], CreatedShipment.OrderStatus = []\<rparr>"

definition zero_CreateShipmentsResponse :: CreateShipmentsResponse where
  "zero_CreateShipmentsResponse =
     \<lparr>CreateShipmentsResponse.Result = \<lparr>CreateShipmentsResult.Items = []\<rparr>\<rparr>"

definition zero_AddressInfo :: AddressInfo where
  "zero_AddressInfo =
     \<lparr>AddressInfo.Name = [], AddressInfo.PostalCode = [], AddressInfo.City = [],
      AddressInfo.Street = [], AddressInfo.HouseNumber = [],
      AddressInfo.ApartmentNumber = [], AddressInfo.ContactPerson = [],
      AddressInfo.ContactPhone = [], AddressInfo.ContactEmail = []\<rparr>"

definition zero_ShipmentBasicData :: ShipmentBasicData where
  "zero_ShipmentBasicData =
     \<lparr>ShipmentBasicData.ShipmentID = [], Created = [],
      ShipmentBasicData.Shipper = zero_AddressInfo,
      ShipmentBasicData.Receiver = zero_AddressInfo,
      ShipmentBasicData.OrderStatus = []\<rparr>"

definition zero_GetMyShipmentsResponse :: GetMyShipmentsResponse where
  "zero_GetMyShipmentsResponse =
     \<lparr>GetMyShipmentsResponse.Result = \<lparr>GetMyShipmentsResult.Items = []\<rparr>\<rparr>"

definition zero_SOAPResponseEnvelope :: SOAPResponseEnvelope where
  "zero_SOAPResponseEnvelope =
     \<lparr>SOAPResponseEnvelope.XMLName = zero_Name,
      SOAPResponseEnvelope.Body =
        \<lparr>GetVersionResponse = None, CreateShipmentsResponse = None,
         GetMyShipmentsResponse = None\<rparr>\<rparr>"

definition zero_GetMyShipmentsEnvelope :: GetMyShipmentsEnvelope where
  "zero_GetMyShipmentsEnvelope =
     \<lparr>GetMyShipmentsEnvelope.XMLName = zero_Name,
      GetMyShipmentsEnvelope.Body = \<lparr>Response = zero_GetMyShipmentsResponse\<rparr>\<rparr>"

subsection \<open>Unmarshalling by the struct tags\<close>

text \<open>
  \<^verbatim>\<open>Unmarshal\<close> into a struct walks the content of the element in document order. A
  child element whose local name is the tag of a field is unmarshalled into that
  field (no tag of \<^verbatim>\<open>types.go\<close> asks for a namespace, so any namespace matches); any
  other child is skipped, and so is the character data of a struct. A string field
  receives the character data that stands directly in its element. A slice field
  grows by one entry, read from the zero value, per matching child. A nil pointer
  field is allocated at its first matching child. A field that is matched again is
  unmarshalled into again, on top of what it holds.
\<close>

definition chardata :: "xml_node list \<Rightarrow> string" where
  "chardata kids = concat (map (\<lambda>k. case k of CharData s \<Rightarrow> s | Element _ _ _ \<Rightarrow> []) kids)"

definition unmarshal_struct ::
  "(string \<Rightarrow> xml_node list \<Rightarrow> 'a \<Rightarrow> 'a) \<Rightarrow> xml_node list \<Rightarrow> 'a \<Rightarrow> 'a" where
  "unmarshal_struct field kids v =
     fold (\<lambda>k v. case k of Element n _ ks \<Rightarrow> field (Local n) ks v | CharData _ \<Rightarrow> v) kids v"

definition field_GetVersionResponse ::
  "string \<Rightarrow> xml_node list \<Rightarrow> GetVersionResponse \<Rightarrow> GetVersionResponse" where
  "field_GetVersionResponse tag ks v =
     (if tag = ''getVersionResult'' then v\<lparr>Version := chardata ks\<rparr> else v)"

definition field_CreatedShipment ::
  "string \<Rightarrow> xml_node list \<Rightarrow> CreatedShipment \<Rightarrow> CreatedShipment" where
  "field_CreatedShipment tag ks v =
     (if tag = ''shipmentId'' then v\<lparr>CreatedShipment.ShipmentID := chardata ks\<rparr>
      else if tag = ''shipmentNo'' then v\<lparr>ShipmentNo := chardata ks\<rparr>
      else if tag = ''orderStatus'' then v\<lparr>CreatedShipment.OrderStatus := chardata ks\<rparr>
      else v)"

definition field_CreateShipmentsResult ::
  "string \<Rightarrow> xml_node list \<Rightarrow> CreateShipmentsResult \<Rightarrow> CreateShipmentsResult" where
  "field_CreateShipmentsResult tag ks v =
     (if tag = ''item''
      then v\<lparr>CreateShipmentsResult.Items :=
               CreateShipmentsResult.Items v
               @ [unmarshal_struct field_CreatedShipment ks zero_CreatedShipment]\<rparr>
      else v)"

definition field_CreateShipmentsResponse ::
  "string \<Rightarrow> xml_node list \<Rightarrow> CreateShipmentsResponse \<Rightarrow> CreateShipmentsResponse" where
  "field_CreateShipmentsResponse tag ks v =
     (if tag = ''createShipmentsResult''
      then v\<lparr>CreateShipmentsResponse.Result :=
               unmarshal_struct field_CreateShipmentsResult ks (CreateShipmentsResponse.Result v)\<rparr>
      else v)"

definition field_AddressInfo ::
  "string \<Rightarrow> xml_node list \<Rightarrow> AddressInfo \<Rightarrow> AddressInfo" where
  "field_AddressInfo tag ks v =
     (if tag = ''name'' then v\<lparr>AddressInfo.Name := chardata ks\<rparr>
      else if tag = ''postalCode'' then v\<lparr>AddressInfo.PostalCode := chardata ks\<rparr>
      else if tag = ''city'' then v\<lparr>AddressInfo.City := chardata ks\<rparr>
      else if tag = ''street'' then v\<lparr>AddressInfo.Street := chardata ks\<rparr>
      else if tag = ''houseNumber'' then v\<lparr>AddressInfo.HouseNumber := chardata ks\<rparr>
      else if tag = ''apartmentNumber'' then v\<lparr>AddressInfo.ApartmentNumber := chardata ks\<rparr>
      else if tag = ''contactPerson'' then v\<lparr>AddressInfo.ContactPerson := chardata ks\<rparr>
      else if tag = ''contactPhone'' then v\<lparr>AddressInfo.ContactPhone := chardata ks\<rparr>
      else if tag = ''contactEmail'' then v\<lparr>AddressInfo.ContactEmail := chardata ks\<rparr>
      else v)"

definition field_ShipmentBasicData ::
  "string \<Rightarrow> xml_node list \<Rightarrow> ShipmentBasicData \<Rightarrow> ShipmentBasicData" where
  "field_ShipmentBasicData tag ks v =
     (if tag = ''shipmentId'' then v\<lparr>ShipmentBasicData.ShipmentID := chardata ks\<rparr>
      else if tag = ''created'' then v\<lparr>Created := chardata ks\<rparr>
      else if tag = ''shipper''
        then v\<lparr>ShipmentBasicData.Shipper :=
                 unmarshal_struct field_AddressInfo ks (ShipmentBasicData.Shipper v)\<rparr>
      else if tag = ''receiver''
        then v\<lparr>ShipmentBasicData.Receiver :=
                 unmarshal_struct field_AddressInfo ks (ShipmentBasicData.Receiver v)\<rparr>
      else if tag = ''orderStatus'' then v\<lparr>ShipmentBasicData.OrderStatus := chardata ks\<rparr>
      else v)"

definition field_GetMyShipmentsResult ::
  "string \<Rightarrow> xml_node list \<Rightarrow> GetMyShipmentsResult \<Rightarrow> GetMyShipmentsResult" where
  "field_GetMyShipmentsResult tag ks v =
     (if tag = ''item''
      then v\<lparr>GetMyShipmentsResult.Items :=
               GetMyShipmentsResult.Items v
               @ [unmarshal_struct field_ShipmentBasicData ks zero_ShipmentBasicData]\<rparr>
      else v)"

definition field_GetMyShipmentsResponse ::
  "string \<Rightarrow> xml_node list \<Rightarrow> GetMyShipmentsResponse \<Rightarrow> GetMyShipmentsResponse" where
  "field_GetMyShipmentsResponse tag ks v =
     (if tag = ''getMyShipmentsResult''
      then v\<lparr>GetMyShipmentsResponse.Result :=
               unmarshal_struct field_GetMyShipmentsResult ks (GetMyShipmentsResponse.Result v)\<rparr>
      else v)"

definition alloc :: "'a \<Rightarrow> 'a option \<Rightarrow> 'a" where
  "alloc zero p = (case p of None \<Rightarrow> zero | Some v \<Rightarrow> v)"

definition field_SOAPResponseBody ::
  "string \<Rightarrow> xml_node list \<Rightarrow> SOAPResponseBody \<Rightarrow> SOAPResponseBody" where
  "field_SOAPResponseBody tag ks v =
     (if tag = ''getVersionResponse''
        then v\<lparr>GetVersionResponse :=
                 Some (unmarshal_struct field_GetVersionResponse ks
                         (alloc zero_GetVersionResponse (GetVersionResponse v)))\<rparr>
      else if tag = ''createShipmentsResponse''
        then v\<lparr>CreateShipmentsResponse :=
                 Some (unmarshal_struct field_CreateShipmentsResponse ks
                         (alloc zero_CreateShipmentsResponse (CreateShipmentsResponse v)))\<rparr>
      else if tag = ''getMyShipmentsResponse''
        then v\<lparr>GetMyShipmentsResponse :=
                 Some (unmarshal_struct field_GetMyShipmentsResponse ks
                         (alloc zero_GetMyShipmentsResponse (GetMyShipmentsResponse v)))\<rparr>
      else v)"

definition field_SOAPResponseEnvelope ::
  "string \<Rightarrow> xml_node list \<Rightarrow> SOAPResponseEnvelope \<Rightarrow> SOAPResponseEnvelope" where
  "field_SOAPResponseEnvelope tag ks v =
     (if tag = ''Body''
      then v\<lparr>SOAPResponseEnvelope.Body :=
               unmarshal_struct field_SOAPResponseBody ks (SOAPResponseEnvelope.Body v)\<rparr>
      else v)"

definition field_GetMyShipmentsBody ::
  "string \<Rightarrow> xml_node list \<Rightarrow> GetMyShipmentsBody \<Rightarrow> GetMyShipmentsBody" where
  "field_GetMyShipmentsBody tag ks v =
     (if tag = ''getMyShipmentsResponse''
      then v\<lparr>Response := unmarshal_struct field_GetMyShipmentsResponse ks (Response v)\<rparr>
      else v)"

definition field_GetMyShipmentsEnvelope ::
  "string \<Rightarrow> xml_node list \<Rightarrow> GetMyShipmentsEnvelope \<Rightarrow> GetMyShipmentsEnvelope" where
  "field_GetMyShipmentsEnvelope tag ks v =
     (if tag = ''Body''
      then v\<lparr>GetMyShipmentsEnvelope.Body :=
               unmarshal_struct field_GetMyShipmentsBody ks (GetMyShipmentsEnvelope.Body v)\<rparr>
      else v)"

section \<open>The collaborators of the client\<close>

text \<open>
  The client reaches the outside through three library calls, which are the fields of
  the environment:
  \<^item> \<open>httpDo\<close> is \<^verbatim>\<open>httpClient.Do\<close>: a transport error, or a response whose body
    \<^verbatim>\<open>io.ReadAll\<close> reads (\<open>Inr\<close> the bytes) or fails to read (\<open>Inl\<close>);
  \<^item> \<open>xmlTokens\<close> is the tokenizer of \<^verbatim>\<open>encoding/xml\<close> as \<^verbatim>\<open>xml.Unmarshal\<close> drives it:
    it reads the bytes up to the end tag of the first element and gives that element
    (name, attributes, content), or the error that stops it (a syntax error, an
    unexpected end of the bytes, no element at all);
  \<^item> \<open>FormatFloat\<close> is \<^verbatim>\<open>strconv.FormatFloat(f, 'g', -1, 64)\<close>.

  The debug files that \<^verbatim>\<open>doRequest\<close> writes when \<^verbatim>\<open>debugFiles\<close> is set are a side
  channel that no result depends on; they are left out. The context is taken to be
  non-nil, so that \<^verbatim>\<open>http.NewRequestWithContext\<close> succeeds on its constant method and
  URL; a cancelled context shows as a transport error.
\<close>

record http_request =
  req_Method :: string
  req_URL :: string
  req_ContentType :: string
  req_SOAPAction :: string
  req_Body :: string

record http_response =
  resp_Status :: string
  resp_Body :: "string + string"

record env =
  httpDo :: "http_request \<Rightarrow> string + http_response"
  xmlTokens :: "string \<Rightarrow> string + xml_Name \<times> (xml_Name \<times> string) list \<times> xml_node list"
  FormatFloat :: "64 word \<Rightarrow> string"

text \<open>
  \<^verbatim>\<open>xml.Unmarshal\<close> into an envelope: the first element must be named \<^verbatim>\<open>Envelope\<close> (the
  tag of \<^verbatim>\<open>XMLName\<close>), in any namespace. Every field below the envelope is a string, a
  struct, a slice or a pointer, so no conversion can fail. (For bytes that have both
  defects, a wrong first element and a later syntax error, Go reports the first one it
  meets; the client wraps either in the same way.)
\<close>

definition Unmarshal_SOAPResponseEnvelope :: "env \<Rightarrow> string \<Rightarrow> string + SOAPResponseEnvelope" where
  "Unmarshal_SOAPResponseEnvelope env data =
     (case xmlTokens env data of
        Inl err \<Rightarrow> Inl err
      | Inr (name, attrs, kids) \<Rightarrow>
          if Local name \<noteq> ''Envelope''
          then Inl (''expected element type <Envelope> but have <'' @ Local name @ ''>'')
          else Inr (unmarshal_struct field_SOAPResponseEnvelope kids
                      (zero_SOAPResponseEnvelope\<lparr>SOAPResponseEnvelope.XMLName := name\<rparr>)))"

definition Unmarshal_GetMyShipmentsEnvelope :: "env \<Rightarrow> string \<Rightarrow> string + GetMyShipmentsEnvelope" where
  "Unmarshal_GetMyShipmentsEnvelope env data =
     (case xmlTokens env data of
        Inl err \<Rightarrow> Inl err
      | Inr (name, attrs, kids) \<Rightarrow>
          if Local name \<noteq> ''Envelope''
          then Inl (''expected element type <Envelope> but have <'' @ Local name @ ''>'')
          else Inr (unmarshal_struct field_GetMyShipmentsEnvelope kids
                      (zero_GetMyShipmentsEnvelope\<lparr>GetMyShipmentsEnvelope.XMLName := name\<rparr>)))"

section \<open>Calendar dates\<close>

text \<open>
  A reading of \<^verbatim>\<open>time.Now()\<close> in the local time zone: the calendar date and the time of
  day. The \<^verbatim>\<open>time\<close> package keeps an instant as a count of seconds in 64 bits and finds
  dates through the count of days from its absolute zero day, 1 March of the year
  -292277022400 (since Go 1.23; in the older releases the zero day is 306 days later,
  1 January of -292277022399).

  \<^verbatim>\<open>t.AddDate(0, 0, n)\<close> is \<^verbatim>\<open>Date(year, month, day+n, ...)\<close>: the days from the zero day
  to the date, plus \<open>n\<close>, times 86400, plus the seconds of the day, all of it in 64
  bits. \<^verbatim>\<open>Format\<close> reads the date off the count, as the day \<open>count div 86400\<close> after the
  zero day. When the day \<open>n\<close> days off is one that the count reaches, this is the date
  \<open>n\<close> days off (October 32 is November 1); before the zero day the count wraps around.
  \<^verbatim>\<open>Format("2006-01-02")\<close> writes the year on four digits at least, the month and the
  day on two. (The zone offset is left out: the dates are those of the local clock.)
\<close>

record Time =
  year :: int
  month :: nat
  day :: nat
  nsec_of_day :: nat

definition isLeap :: "int \<Rightarrow> bool" where
  "isLeap y \<longleftrightarrow> y mod 4 = 0 \<and> (y mod 100 \<noteq> 0 \<or> y mod 400 = 0)"

definition daysIn :: "nat \<Rightarrow> int \<Rightarrow> nat" where
  "daysIn m y =
     (if m = 2 then (if isLeap y then 29 else 28)
      else if m = 4 \<or> m = 6 \<or> m = 9 \<or> m = 11 then 30
      else 31)"

text \<open>
  The number of a day, counted from the day before 1 January of the year 1, and the
  date of a day number: the year through the cycles of 400, 100 and 4 years, the month
  by running through the months of the year.
\<close>

definition days_before_month :: "nat \<Rightarrow> int \<Rightarrow> int" where
  "days_before_month m y = int (sum_list (map (\<lambda>k. daysIn k y) [1..<m]))"

definition days_before_year :: "int \<Rightarrow> int" where
  "days_before_year y = 365 * (y - 1) + (y - 1) div 4 - (y - 1) div 100 + (y - 1) div 400"

definition day_number :: "Time \<Rightarrow> int" where
  "day_number d = days_before_year (year d) + days_before_month (month d) (year d) + int (day d)"




definition absoluteZeroDay :: int where
  "absoluteZeroDay = - 106751990354237"




definition appendInt :: "int \<Rightarrow> nat \<Rightarrow> string" where
  "appendInt x width =
     (let ds = digits (nat \<bar>x\<bar>)
      in (if x < 0 then ''-'' else []) @ replicate (width - length ds) (CHR ''0'') @ ds)"

definition Format_date :: "Time \<Rightarrow> string" where
  "Format_date d =
     appendInt (year d) 4 @ ''-'' @ appendInt (int (month d)) 2 @ ''-'' @ appendInt (int (day d)) 2"

section \<open>The client of client.go\<close>

definition Endpoint :: string where
  "Endpoint = ''https://dhl24.com.pl/webapi2/provider/service.html?ws=1''"

definition soapenvNS :: string where
  "soapenvNS = ''http://schemas.xmlsoap.org/soap/envelope/''"

definition dhlNS :: string where
  "dhlNS = ''https://dhl24.com.pl/webapi2/provider/service.html?ws=1''"

record DHL24Config =
  Username :: string
  Password :: string
  AccountNumber :: string
  DebugFiles :: bool
  DebugFilesDir :: string

record Client =
  config :: DHL24Config
  debugFiles :: bool
  debugFilesDir :: string

definition NewClient :: "DHL24Config \<Rightarrow> Client" where
  "NewClient cfg =
     \<lparr>config = cfg, debugFiles = DebugFiles cfg, debugFilesDir = DebugFilesDir cfg\<rparr>"

text \<open>
  The errors the client builds with \<^verbatim>\<open>fmt.Errorf\<close>, one constructor per message; the
  argument is the text of the wrapped cause.
\<close>

datatype dhl_error =
    ErrMarshaling string \<comment> \<open>\<^verbatim>\<open>error marshaling SOAP request: %w\<close>\<close>
  | ErrMakingRequest string \<comment> \<open>\<^verbatim>\<open>error making request: %w\<close>\<close>
  | ErrReadingResponse string \<comment> \<open>\<^verbatim>\<open>error reading response: %w\<close>\<close>
  | ErrParsingResponse string \<comment> \<open>\<^verbatim>\<open>error parsing response: %w\<close>\<close>
  | ErrEmptyGetVersion \<comment> \<open>\<^verbatim>\<open>empty getVersion response\<close>\<close>
  | ErrEmptyCreateShipments \<comment> \<open>\<^verbatim>\<open>empty createShipments response\<close>\<close>
  | ErrNoShipmentCreated \<comment> \<open>\<^verbatim>\<open>no shipment created\<close>\<close>

text \<open>
  A method returns \<^verbatim>\<open>(value, resp, err)\<close>: here the response, when there is one, and
  either the error (\<open>Inl\<close>, the value beside it being the zero value) or the value.
\<close>

type_synonym 'a result = "http_response option \<times> (dhl_error + 'a)"

definition marshalSOAPRequest :: "env \<Rightarrow> Client \<Rightarrow> payload \<Rightarrow> dhl_error + string" where
  "marshalSOAPRequest env c body =
     (let envelope = \<lparr>Soapenv = soapenvNS, NS = dhlNS, Body = \<lparr>SOAPBody.Content = body\<rparr>\<rparr>
      in case xml_MarshalIndent (FormatFloat env) envelope of
           Inl err \<Rightarrow> Inl (ErrMarshaling err)
         | Inr xmlData \<Rightarrow> Inr (xml_Header @ xmlData))"

definition doRequest :: "env \<Rightarrow> Client \<Rightarrow> string \<Rightarrow> string \<Rightarrow> string \<Rightarrow> string result" where
  "doRequest env c body soapAction operationName =
     (case httpDo env
             \<lparr>req_Method = ''POST'', req_URL = Endpoint,
              req_ContentType = ''text/xml; charset=utf-8'',
              req_SOAPAction = soapAction, req_Body = body\<rparr> of
        Inl err \<Rightarrow> (None, Inl (ErrMakingRequest err))
      | Inr resp \<Rightarrow>
          (case resp_Body resp of
             Inl err \<Rightarrow> (Some resp, Inl (ErrReadingResponse err))
           | Inr respBody \<Rightarrow> (Some resp, Inr respBody)))"

definition authData :: "Client \<Rightarrow> AuthData" where
  "authData c =
     \<lparr>AuthData.Username = DHL24Config.Username (config c),
      AuthData.Password = DHL24Config.Password (config c)\<rparr>"

definition GetVersion :: "env \<Rightarrow> Client \<Rightarrow> string result" where
  "GetVersion env c =
     (case marshalSOAPRequest env c GetVersionPayload of
        Inl err \<Rightarrow> (None, Inl err)
      | Inr reqBody \<Rightarrow>
          (case doRequest env c reqBody (Endpoint @ ''#getVersion'') ''getVersion'' of
             (resp, Inl err) \<Rightarrow> (resp, Inl err)
           | (resp, Inr body) \<Rightarrow>
               (case Unmarshal_SOAPResponseEnvelope env body of
                  Inl err \<Rightarrow> (resp, Inl (ErrParsingResponse err))
                | Inr envelope \<Rightarrow>
                    (case GetVersionResponse (SOAPResponseEnvelope.Body envelope) of
                       None \<Rightarrow> (resp, Inl ErrEmptyGetVersion)
                     | Some r \<Rightarrow> (resp, Inr (Version r))))))"

definition CreateShipments :: "env \<Rightarrow> Client \<Rightarrow> ShipmentItem list \<Rightarrow> CreatedShipment list result" where
  "CreateShipments env c shipments =
     (let request = \<lparr>CreateShipmentsRequest.AuthData = authData c,
                     Shipments = \<lparr>Shipments.Items = shipments\<rparr>\<rparr>
      in case marshalSOAPRequest env c (CreateShipmentsPayload request) of
           Inl err \<Rightarrow> (None, Inl err)
         | Inr reqBody \<Rightarrow>
             (case doRequest env c reqBody (Endpoint @ ''#createShipments'') ''createShipments'' of
                (resp, Inl err) \<Rightarrow> (resp, Inl err)
              | (resp, Inr body) \<Rightarrow>
                  (case Unmarshal_SOAPResponseEnvelope env body of
                     Inl err \<Rightarrow> (resp, Inl (ErrParsingResponse err))
                   | Inr envelope \<Rightarrow>
                       (case CreateShipmentsResponse (SOAPResponseEnvelope.Body envelope) of
                          None \<Rightarrow> (resp, Inl ErrEmptyCreateShipments)
                        | Some r \<Rightarrow>
                            (resp, Inr (CreateShipmentsResult.Items
                                          (CreateShipmentsResponse.Result r)))))))"

definition CreateShipment :: "env \<Rightarrow> Client \<Rightarrow> ShipmentItem \<Rightarrow> CreatedShipment result" where
  "CreateShipment env c shipment =
     (case CreateShipments env c [shipment] of
        (resp, Inl err) \<Rightarrow> (resp, Inl err)
      | (resp, Inr results) \<Rightarrow>
          if length results = 0 then (resp, Inl ErrNoShipmentCreated)
          else (resp, Inr (results ! 0)))"

definition GetMyShipments ::
  "env \<Rightarrow> Client \<Rightarrow> string \<Rightarrow> string \<Rightarrow> 64 word \<Rightarrow> ShipmentBasicData list result" where
  "GetMyShipments env c createdFrom createdTo offset =
     (let request = \<lparr>GetMyShipmentsRequest.AuthData = authData c,
                     CreatedFrom = createdFrom, CreatedTo = createdTo, Offset = offset\<rparr>
      in case marshalSOAPRequest env c (GetMyShipmentsPayload request) of
           Inl err \<Rightarrow> (None, Inl err)
         | Inr reqBody \<Rightarrow>
             (case doRequest env c reqBody (Endpoint @ ''#getMyShipments'') ''getMyShipments'' of
                (resp, Inl err) \<Rightarrow> (resp, Inl err)
              | (resp, Inr body) \<Rightarrow>
                  (case Unmarshal_GetMyShipmentsEnvelope env body of
                     Inl err \<Rightarrow> (resp, Inl (ErrParsingResponse err))
                   | Inr envelope \<Rightarrow>
                       (resp, Inr (GetMyShipmentsResult.Items
                                     (GetMyShipmentsResponse.Result
                                        (Response (GetMyShipmentsEnvelope.Body envelope))))))))"


section \<open>Elements at a path\<close>

text \<open>
  The contents of the child elements with a given local name, in document order, and
  the same below each of several parents: \<open>below t (below s (children_named r kids))\<close>
  are the elements at the path \<open>r/s/t\<close>.
\<close>

definition children_named :: "string \<Rightarrow> xml_node list \<Rightarrow> xml_node list list" where
  "children_named tag kids =
     concat (map (\<lambda>k. case k of Element n _ ks \<Rightarrow> if Local n = tag then [ks] else []
                          | CharData _ \<Rightarrow> []) kids)"

definition below :: "string \<Rightarrow> xml_node list list \<Rightarrow> xml_node list list" where
  "below tag parents = concat (map (children_named tag) parents)"

section \<open>Reading a request back\<close>

text \<open>
  The repository decodes responses only. What \<^verbatim>\<open>xml.Unmarshal\<close> makes of the bytes of a
  request is fixed all the same, by the tags of the request types: this section
  unmarshals \<^verbatim>\<open>ShipmentItem\<close> and its parts as the section above unmarshals the response
  types.
\<close>

subsection \<open>The text that stands for a string\<close>

text \<open>
  \<^verbatim>\<open>EscapeString\<close> writes an escape for eight characters, which the tokenizer undoes,
  and U+FFFD for every ill-formed byte and every rune outside the character range,
  which nothing undoes. What is read back for a string is the string with these
  replacements.
\<close>

fun sanitize_from :: "nat \<Rightarrow> string \<Rightarrow> string" where
  "sanitize_from _ [] = []"
| "sanitize_from (Suc k) (c # cs) = sanitize_from k cs"
| "sanitize_from 0 (c # cs) =
     (case DecodeRune (map of_char (c # cs)) of (r, width) \<Rightarrow>
        (if \<not> isInCharacterRange r \<or> (r = RuneError \<and> width = 1) then escFFFD
         else take width (c # cs)) @ sanitize_from (width - 1) cs)"

definition sanitize :: "string \<Rightarrow> string" where
  "sanitize s = sanitize_from 0 s"


subsection \<open>The element tree of a printed document\<close>

text \<open>
  The tokenizer cuts a name at its colon and replaces a prefix that is bound by an
  \<^verbatim>\<open>xmlns:\<close> attribute with the namespace; the requests bind \<^verbatim>\<open>soapenv\<close> and \<^verbatim>\<open>ns\<close> on
  the envelope. The line breaks and the indentation that \<^verbatim>\<open>MarshalIndent\<close> writes before
  a start tag and before the end tag of an element with child elements come back as
  character data. \<open>read_document\<close> is the element that the tokenizer reads from the
  bytes printed for a tree.
\<close>

fun split_colon :: "string \<Rightarrow> (string \<times> string) option" where
  "split_colon [] = None"
| "split_colon (c # cs) =
     (if c = CHR '':'' then Some ([], cs)
      else case split_colon cs of None \<Rightarrow> None | Some (p, l) \<Rightarrow> Some (c # p, l))"

definition bound_prefix :: "string \<Rightarrow> string" where
  "bound_prefix p = (if p = ''soapenv'' then soapenvNS else if p = ''ns'' then dhlNS else p)"

definition read_name :: "string \<Rightarrow> xml_Name" where
  "read_name name =
     (case split_colon name of
        None \<Rightarrow> XName [] name
      | Some (p, l) \<Rightarrow> if p = [] \<or> l = [] then XName [] name else XName (bound_prefix p) l)"

definition read_attr :: "string \<times> string \<Rightarrow> xml_Name \<times> string" where
  "read_attr a =
     (case split_colon (fst a) of
        None \<Rightarrow> (XName [] (fst a), sanitize (snd a))
      | Some (p, l) \<Rightarrow>
          if p = [] \<or> l = [] then (XName [] (fst a), sanitize (snd a))
          else (XName (if p = ''xmlns'' then p else bound_prefix p) l, sanitize (snd a)))"

definition text_nodes :: "string \<Rightarrow> xml_node list" where
  "text_nodes s = (if s = [] then [] else [CharData (sanitize s)])"

fun read_back :: "nat \<Rightarrow> xml_out \<Rightarrow> xml_node list"
  and read_kids :: "nat \<Rightarrow> xml_out list \<Rightarrow> xml_node list" where
  "read_back depth (OutText s) = text_nodes s"
| "read_back depth (OutElement name attrs kids) =
     [Element (read_name name) (map read_attr attrs)
        (read_kids (Suc depth) kids
         @ (if list_ex is_OutElement kids then [CharData (newline @ indent depth)] else []))]"
| "read_kids depth [] = []"
| "read_kids depth (k # ks) =
     (if is_OutElement k then [CharData (newline @ indent depth)] else [])
     @ read_back depth k @ read_kids depth ks"


definition content_read :: "nat \<Rightarrow> xml_out \<Rightarrow> xml_node list" where
  "content_read depth out =
     (case out of
        OutElement name attrs kids \<Rightarrow>
          read_kids (Suc depth) kids
          @ (if list_ex is_OutElement kids then [CharData (newline @ indent depth)] else [])
      | OutText s \<Rightarrow> [])"

subsection \<open>Unmarshalling the request types\<close>









definition unmarshal_struct_err ::
  "(string \<Rightarrow> xml_node list \<Rightarrow> 'a \<Rightarrow> string + 'a) \<Rightarrow> xml_node list \<Rightarrow> 'a \<Rightarrow> string + 'a" where
  "unmarshal_struct_err field kids v =
     fold (\<lambda>k r. case r of
                   Inl err \<Rightarrow> Inl err
                 | Inr v \<Rightarrow> (case k of Element n _ ks \<Rightarrow> field (Local n) ks v
                                      | CharData _ \<Rightarrow> Inr v))
       kids (Inr v)"









section \<open>Vocabulary of the properties\<close>

text \<open>
  \<open>receives env c p action op resp body\<close>: the request that carries payload \<open>p\<close> is
  answered by the response \<open>resp\<close>, whose body reads as the bytes \<open>body\<close>.
\<close>

definition receives ::
  "env \<Rightarrow> Client \<Rightarrow> payload \<Rightarrow> string \<Rightarrow> string \<Rightarrow> http_response option \<Rightarrow> string \<Rightarrow> bool" where
  "receives env c p soapAction operationName resp body \<longleftrightarrow>
     (case marshalSOAPRequest env c p of
        Inl err \<Rightarrow> False
      | Inr reqBody \<Rightarrow> doRequest env c reqBody soapAction operationName = (resp, Inr body))"

abbreviation GetVersion_receives :: "env \<Rightarrow> Client \<Rightarrow> http_response option \<Rightarrow> string \<Rightarrow> bool" where
  "GetVersion_receives env c \<equiv>
     receives env c GetVersionPayload (Endpoint @ ''#getVersion'') ''getVersion''"

abbreviation CreateShipments_receives ::
  "env \<Rightarrow> Client \<Rightarrow> ShipmentItem list \<Rightarrow> http_response option \<Rightarrow> string \<Rightarrow> bool" where
  "CreateShipments_receives env c shipments \<equiv>
     receives env c
       (CreateShipmentsPayload
          \<lparr>CreateShipmentsRequest.AuthData = authData c,
           Shipments = \<lparr>Shipments.Items = shipments\<rparr>\<rparr>)
       (Endpoint @ ''#createShipments'') ''createShipments''"

abbreviation GetMyShipments_receives ::
  "env \<Rightarrow> Client \<Rightarrow> string \<Rightarrow> string \<Rightarrow> 64 word \<Rightarrow> http_response option \<Rightarrow> string \<Rightarrow> bool" where
  "GetMyShipments_receives env c createdFrom createdTo offset \<equiv>
     receives env c
       (GetMyShipmentsPayload
          \<lparr>GetMyShipmentsRequest.AuthData = authData c,
           CreatedFrom = createdFrom, CreatedTo = createdTo, Offset = offset\<rparr>)
       (Endpoint @ ''#getMyShipments'') ''getMyShipments''"

text \<open>
  The contents of the \<^verbatim>\<open>Body\<close> elements of the envelope that the bytes hold, when the
  bytes tokenize and their first element is an \<^verbatim>\<open>Envelope\<close>.
\<close>

definition soap_bodies :: "env \<Rightarrow> string \<Rightarrow> xml_node list list option" where
  "soap_bodies env data =
     (case xmlTokens env data of
        Inl err \<Rightarrow> None
      | Inr (name, attrs, kids) \<Rightarrow>
          if Local name = ''Envelope'' then Some (children_named ''Body'' kids) else None)"


text \<open>
  Dates of the calendar, the day before a date, and the day numbers that the count of
  seconds reaches from the zero day.
\<close>

definition valid_date :: "Time \<Rightarrow> bool" where
  "valid_date d \<longleftrightarrow> 1 \<le> month d \<and> month d \<le> 12 \<and> 1 \<le> day d \<and> day d \<le> daysIn (month d) (year d)"

definition prev_day :: "Time \<Rightarrow> Time" where
  "prev_day d =
     (if 1 < day d then d\<lparr>day := day d - 1\<rparr>
      else if 1 < month d then d\<lparr>month := month d - 1, day := daysIn (month d - 1) (year d)\<rparr>
      else d\<lparr>year := year d - 1, month := 12, day := 31\<rparr>)"




definition same_day :: "Time \<Rightarrow> Time \<Rightarrow> bool" where
  "same_day a b \<longleftrightarrow> year a = year b \<and> month a = month b \<and> day a = day b"

text \<open>
  A byte that \<^verbatim>\<open>EscapeString\<close> copies: printable ASCII but the five characters of
  markup.
\<close>

definition plain :: "char \<Rightarrow> bool" where
  "plain ch \<longleftrightarrow>
     (let n = (of_char ch :: nat)
      in 0x20 \<le> n \<and> n < 0x80 \<and> n \<noteq> 0x22 \<and> n \<noteq> 0x27 \<and> n \<noteq> 0x26 \<and> n \<noteq> 0x3C \<and> n \<noteq> 0x3E)"

definition envelope_open :: string where
  "envelope_open =
     ''<soapenv:Envelope xmlns:soapenv=\"http://schemas.xmlsoap.org/soap/envelope/\"''
     @ '' xmlns:ns=\"https://dhl24.com.pl/webapi2/provider/service.html?ws=1\">''"

definition getVersion_request :: string where
  "getVersion_request =
     ''<?xml version=\"1.0\" encoding=\"UTF-8\"?>'' @ newline
     @ envelope_open @ newline
     @ ''  <soapenv:Header></soapenv:Header>'' @ newline
     @ ''  <soapenv:Body>'' @ newline
     @ ''    <ns:getVersion></ns:getVersion>'' @ newline
     @ ''  </soapenv:Body>'' @ newline
     @ ''</soapenv:Envelope>''"







subsection \<open>Example exchanges\<close>

definition example_client :: Client where
  "example_client =
     NewClient \<lparr>DHL24Config.Username = ''user'', DHL24Config.Password = ''secret'',
                DHL24Config.AccountNumber = ''6000000'', DebugFiles = False,
                DebugFilesDir = []\<rparr>"

definition el :: "string \<Rightarrow> xml_node list \<Rightarrow> xml_node" where
  "el tag kids = Element (XName [] tag) [] kids"

definition ok_response :: "string \<Rightarrow> http_response" where
  "ok_response bytes = \<lparr>resp_Status = ''200 OK'', resp_Body = Inr bytes\<rparr>"

text \<open>
  A service that answers every request with the same bytes, and a tokenizer that
  knows these bytes only. The float of the examples is 0.5.
\<close>

definition served ::
  "string \<Rightarrow> (string + xml_Name \<times> (xml_Name \<times> string) list \<times> xml_node list) \<Rightarrow> env" where
  "served bytes tokens =
     \<lparr>httpDo = (\<lambda>req. Inr (ok_response bytes)),
      xmlTokens = (\<lambda>data. if data = bytes then tokens else Inl ''EOF''),
      FormatFloat = (\<lambda>f. if f = 0x3FE0000000000000 then ''0.5'' else ''0'')\<rparr>"

definition version_bytes :: string where
  "version_bytes =
     ''<Envelope><Body><getVersionResponse><getVersionResult>2.13.3</getVersionResult>''
     @ ''</getVersionResponse></Body></Envelope>''"

definition version_env :: env where
  "version_env =
     served version_bytes
       (Inr (XName [] ''Envelope'', [],
             [el ''Body'' [el ''getVersionResponse''
                [el ''getVersionResult'' [CharData ''2.13.3'']]]]))"

text \<open>The shipment of \<^verbatim>\<open>testCreateShipment\<close> in \<^verbatim>\<open>main.go\<close>, on a fixed day.\<close>

definition example_shipment :: ShipmentItem where
  "example_shipment =
     \<lparr>ShipmentItem.Shipper =
        \<lparr>Country = [], Address.Name = ''ESMALTE INC'', Address.PostalCode = ''01249'',
         Address.City = ''Warsaw'', Address.Street = ''GOLESZOWSKA'',
         Address.HouseNumber = ''3'', Address.ApartmentNumber = [],
         Address.ContactPerson = [], Address.ContactPhone = ''123456789'',
         Address.ContactEmail = ''sender@example.com''\<rparr>,
      ShipmentItem.Receiver =
        \<lparr>Country = ''PL'', Address.Name = ''Test Receiver'', Address.PostalCode = ''01249'',
         Address.City = ''Warsaw'', Address.Street = ''GOLESZOWSKA'',
         Address.HouseNumber = ''3'', Address.ApartmentNumber = [],
         Address.ContactPerson = [], Address.ContactPhone = ''987654321'',
         Address.ContactEmail = ''receiver@example.com''\<rparr>,
      PieceList = \<lparr>PieceList.Items = [\<lparr>Type = ''ENVELOPE'', Quantity = 1,
                                         Weight = 0x3FE0000000000000\<rparr>]\<rparr>,
      Payment = \<lparr>PaymentType = ''BANK_TRANSFER'', PayerType = ''SHIPPER'',
                  Payment.AccountNumber = ''6000000'', PaymentMethod = ''BANK_TRANSFER''\<rparr>,
      Service = \<lparr>Product = ''AH''\<rparr>,
      ShipmentDate = ''2024-06-11'',
      SkipRestrictionCheck = True,
      Comment = [],
      ShipmentItem.Content = ''test content''\<rparr>"

definition created_one_bytes :: string where
  "created_one_bytes =
     ''<Envelope><Body><createShipmentsResponse><createShipmentsResult>''
     @ ''<item><shipmentId>11122223333</shipmentId></item>''
     @ ''</createShipmentsResult></createShipmentsResponse></Body></Envelope>''"

definition created_one_env :: env where
  "created_one_env =
     served created_one_bytes
       (Inr (XName [] ''Envelope'', [],
             [el ''Body'' [el ''createShipmentsResponse'' [el ''createShipmentsResult''
                [el ''item'' [el ''shipmentId'' [CharData ''11122223333'']]]]]]))"

definition created_two_bytes :: string where
  "created_two_bytes =
     ''<Envelope><Body><createShipmentsResponse><createShipmentsResult>''
     @ ''<item><shipmentId>11122223333</shipmentId></item>''
     @ ''<item><shipmentId>11122224444</shipmentId></item>''
     @ ''</createShipmentsResult></createShipmentsResponse></Body></Envelope>''"

definition created_two_env :: env where
  "created_two_env =
     served created_two_bytes
       (Inr (XName [] ''Envelope'', [],
             [el ''Body'' [el ''createShipmentsResponse'' [el ''createShipmentsResult''
                [el ''item'' [el ''shipmentId'' [CharData ''11122223333'']],
                 el ''item'' [el ''shipmentId'' [CharData ''11122224444'']]]]]]))"

definition created_none_bytes :: string where
  "created_none_bytes =
     ''<Envelope><Body><createShipmentsResponse><createShipmentsResult>''
     @ ''</createShipmentsResult></createShipmentsResponse></Body></Envelope>''"

definition created_none_env :: env where
  "created_none_env =
     served created_none_bytes
       (Inr (XName [] ''Envelope'', [],
             [el ''Body'' [el ''createShipmentsResponse'' [el ''createShipmentsResult'' []]]]))"

definition empty_bytes :: string where
  "empty_bytes = ''<Envelope><Body></Body></Envelope>''"

definition empty_env :: env where
  "empty_env = served empty_bytes (Inr (XName [] ''Envelope'', [], [el ''Body'' []]))"

definition fault_bytes :: string where
  "fault_bytes =
     ''<Envelope><Body><Fault><faultcode>100</faultcode>''
     @ ''<faultstring>Invalid credentials</faultstring></Fault></Body></Envelope>''"

definition fault_env :: env where
  "fault_env =
     served fault_bytes
       (Inr (XName [] ''Envelope'', [],
             [el ''Body'' [el ''Fault''
                [el ''faultcode'' [CharData ''100''],
                 el ''faultstring'' [CharData ''Invalid credentials'']]]]))"



definition created :: "string \<Rightarrow> CreatedShipment" where
  "created ident =
     \<lparr>CreatedShipment.ShipmentID = ident, ShipmentNo = [], CreatedShipment.OrderStatus = []\<rparr>"




definition june10 :: Time where
  "june10 = \<lparr>year = 2024, month = 6, day = 10, nsec_of_day = 0\<rparr>"

definition other_client :: Client where
  "other_client =
     NewClient \<lparr>DHL24Config.Username = ''someone'', DHL24Config.Password = ''else'',
                DHL24Config.AccountNumber = ''7000000'', DebugFiles = False,
                DebugFilesDir = []\<rparr>"







section \<open>Decoding, element by element\<close>

lemma children_named_Nil [simp]: "children_named tag [] = []"
  by (simp add: children_named_def)

lemma children_named_Cons:
  "children_named tag (k # kids) =
     (case k of Element n _ ks \<Rightarrow> if Local n = tag then [ks] else [] | CharData _ \<Rightarrow> [])
     @ children_named tag kids"
  by (simp add: children_named_def)

lemma below_Nil [simp]: "below tag [] = []"
  by (simp add: below_def)

lemma below_Cons: "below tag (p # ps) = children_named tag p @ below tag ps"
  by (simp add: below_def)

lemma unmarshal_struct_proj:
  assumes other: "\<And>tag ks v. tag \<noteq> t \<Longrightarrow> proj (field tag ks v) = proj v"
    and same: "\<And>ks v. proj (field t ks v) = upd ks (proj v)"
  shows "proj (unmarshal_struct field kids v) = fold upd (children_named t kids) (proj v)"
proof (induction kids arbitrary: v)
  case Nil
  show ?case by (simp add: unmarshal_struct_def)
next
  case (Cons k kids)
  show ?case
  proof (cases k)
    case (Element n as ks)
    have step: "unmarshal_struct field (k # kids) v
        = unmarshal_struct field kids (field (Local n) ks v)"
      using Element by (simp add: unmarshal_struct_def)
    show ?thesis
    proof (cases "Local n = t")
      case True
      with Element show ?thesis
        unfolding step by (simp add: Cons.IH children_named_Cons same)
    next
      case False
      with Element show ?thesis
        unfolding step by (simp add: Cons.IH children_named_Cons other)
    qed
  next
    case (CharData s)
    have step: "unmarshal_struct field (k # kids) v = unmarshal_struct field kids v"
      using CharData by (simp add: unmarshal_struct_def)
    from CharData show ?thesis
      unfolding step by (simp add: Cons.IH children_named_Cons)
  qed
qed

lemma fold_unmarshal_proj:
  assumes other: "\<And>tag ks v. tag \<noteq> t \<Longrightarrow> proj (field tag ks v) = proj v"
    and same: "\<And>ks v. proj (field t ks v) = upd ks (proj v)"
  shows "proj (fold (unmarshal_struct field) parents v) = fold upd (below t parents) (proj v)"
proof (induction parents arbitrary: v)
  case Nil
  show ?case by simp
next
  case (Cons p ps)
  show ?case
    by (simp add: Cons.IH below_Cons unmarshal_struct_proj [of t proj field upd, OF other same])
qed

lemma fold_last: "fold (\<lambda>x _. f x) xs a = (case xs of [] \<Rightarrow> a | _ \<Rightarrow> f (last xs))"
  by (induction xs arbitrary: a) (auto split: list.splits)

lemma fold_alloc:
  "fold (\<lambda>ks slot. Some (g ks (alloc z slot))) rs s =
     (case rs of [] \<Rightarrow> s | _ \<Rightarrow> Some (fold g rs (alloc z s)))"
  by (induction rs arbitrary: s) (auto simp: alloc_def split: list.splits)

lemma fold_items: "fold (\<lambda>ks xs. xs @ [f ks]) kss acc = acc @ map f kss"
  by (induction kss arbitrary: acc) auto

lemma marshalSOAPRequest_Inr:
  "marshalSOAPRequest env c p =
     Inr (xml_Header @ print_out 0 (marshal_SOAPEnvelope (FormatFloat env)
            \<lparr>Soapenv = soapenvNS, NS = dhlNS, Body = \<lparr>SOAPBody.Content = p\<rparr>\<rparr>))"
  by (simp add: marshalSOAPRequest_def xml_MarshalIndent_def)

lemma receives_served:
  "receives (served bytes tokens) c p soapAction operationName (Some (ok_response bytes)) bytes"
  by (simp add: receives_def marshalSOAPRequest_Inr doRequest_def served_def ok_response_def)

lemma soap_bodies_served:
  "soap_bodies (served bytes (Inr (XName space ''Envelope'', attrs, kids))) bytes
     = Some (children_named ''Body'' kids)"
  by (simp add: soap_bodies_def served_def)

lemma children_named_el:
  "children_named tag (el tag' ks # kids) =
     (if tag' = tag then [ks] else []) @ children_named tag kids"
  by (simp add: children_named_Cons el_def)

lemma Body_of_envelope:
  "SOAPResponseEnvelope.Body (unmarshal_struct field_SOAPResponseEnvelope kids v) =
     fold (unmarshal_struct field_SOAPResponseBody) (children_named ''Body'' kids)
       (SOAPResponseEnvelope.Body v)"
  by (rule unmarshal_struct_proj) (simp_all add: field_SOAPResponseEnvelope_def)

lemma GetVersionResponse_of_bodies:
  "GetVersionResponse (fold (unmarshal_struct field_SOAPResponseBody) bodies b) =
     (case below ''getVersionResponse'' bodies of
        [] \<Rightarrow> GetVersionResponse b
      | _ \<Rightarrow> Some (fold (unmarshal_struct field_GetVersionResponse)
                     (below ''getVersionResponse'' bodies)
                     (alloc zero_GetVersionResponse (GetVersionResponse b))))"
proof -
  have "GetVersionResponse (fold (unmarshal_struct field_SOAPResponseBody) bodies b) =
      fold (\<lambda>ks slot. Some (unmarshal_struct field_GetVersionResponse ks
                              (alloc zero_GetVersionResponse slot)))
        (below ''getVersionResponse'' bodies) (GetVersionResponse b)"
    by (rule fold_unmarshal_proj) (simp_all add: field_SOAPResponseBody_def)
  then show ?thesis by (simp only: fold_alloc)
qed

lemma Version_of_responses:
  "Version (fold (unmarshal_struct field_GetVersionResponse) rs r) =
     (case below ''getVersionResult'' rs of
        [] \<Rightarrow> Version r
      | _ \<Rightarrow> chardata (last (below ''getVersionResult'' rs)))"
proof -
  have "Version (fold (unmarshal_struct field_GetVersionResponse) rs r) =
      fold (\<lambda>ks _. chardata ks) (below ''getVersionResult'' rs) (Version r)"
    by (rule fold_unmarshal_proj) (simp_all add: field_GetVersionResponse_def)
  then show ?thesis by (simp only: fold_last)
qed

lemma Unmarshal_SOAPResponseEnvelope_bodies:
  assumes "soap_bodies env data = Some bodies"
  shows "\<exists>envelope. Unmarshal_SOAPResponseEnvelope env data = Inr envelope
           \<and> SOAPResponseEnvelope.Body envelope =
               fold (unmarshal_struct field_SOAPResponseBody) bodies
                 (SOAPResponseEnvelope.Body zero_SOAPResponseEnvelope)"
  using assms
  by (auto simp: soap_bodies_def Unmarshal_SOAPResponseEnvelope_def Body_of_envelope
           split: sum.splits if_splits)

lemma receivesE:
  assumes "receives env c p soapAction operationName resp body"
  obtains reqBody where "marshalSOAPRequest env c p = Inr reqBody"
    and "doRequest env c reqBody soapAction operationName = (resp, Inr body)"
  using assms by (auto simp: receives_def split: sum.splits)

lemma zero_slots [simp]:
  "GetVersionResponse (SOAPResponseEnvelope.Body zero_SOAPResponseEnvelope) = None"
  "CreateShipmentsResponse (SOAPResponseEnvelope.Body zero_SOAPResponseEnvelope) = None"
  "GetMyShipmentsResponse (SOAPResponseEnvelope.Body zero_SOAPResponseEnvelope) = None"
  by (simp_all add: zero_SOAPResponseEnvelope_def)

lemma list_case_if: "(case xs of [] \<Rightarrow> a | y # ys \<Rightarrow> b) = (if xs = [] then a else b)"
  by (cases xs) simp_all

lemma GetVersion_decoded:
  assumes "GetVersion_receives env c resp body"
    and "soap_bodies env body = Some bodies"
  shows "GetVersion env c =
     (resp, if below ''getVersionResponse'' bodies = [] then Inl ErrEmptyGetVersion
            else Inr (if below ''getVersionResult'' (below ''getVersionResponse'' bodies) = []
                      then []
                      else chardata (last (below ''getVersionResult''
                                             (below ''getVersionResponse'' bodies)))))"
proof -
  obtain reqBody where req: "marshalSOAPRequest env c GetVersionPayload = Inr reqBody"
    and ans: "doRequest env c reqBody (Endpoint @ ''#getVersion'') ''getVersion'' = (resp, Inr body)"
    using assms(1) by (rule receivesE)
  obtain envelope where env: "Unmarshal_SOAPResponseEnvelope env body = Inr envelope"
    and body: "SOAPResponseEnvelope.Body envelope =
               fold (unmarshal_struct field_SOAPResponseBody) bodies
                 (SOAPResponseEnvelope.Body zero_SOAPResponseEnvelope)"
    using Unmarshal_SOAPResponseEnvelope_bodies [OF assms(2)] by blast
  show ?thesis
    by (simp add: GetVersion_def req ans env body GetVersionResponse_of_bodies
          Version_of_responses alloc_def zero_GetVersionResponse_def list_case_if)
qed

lemma CreateShipmentsResponse_of_bodies:
  "CreateShipmentsResponse (fold (unmarshal_struct field_SOAPResponseBody) bodies b) =
     (case below ''createShipmentsResponse'' bodies of
        [] \<Rightarrow> CreateShipmentsResponse b
      | _ \<Rightarrow> Some (fold (unmarshal_struct field_CreateShipmentsResponse)
                     (below ''createShipmentsResponse'' bodies)
                     (alloc zero_CreateShipmentsResponse (CreateShipmentsResponse b))))"
proof -
  have "CreateShipmentsResponse (fold (unmarshal_struct field_SOAPResponseBody) bodies b) =
      fold (\<lambda>ks slot. Some (unmarshal_struct field_CreateShipmentsResponse ks
                              (alloc zero_CreateShipmentsResponse slot)))
        (below ''createShipmentsResponse'' bodies) (CreateShipmentsResponse b)"
    by (rule fold_unmarshal_proj) (simp_all add: field_SOAPResponseBody_def)
  then show ?thesis by (simp only: fold_alloc)
qed

lemma CreateShipments_Result_of_responses:
  "CreateShipmentsResponse.Result (fold (unmarshal_struct field_CreateShipmentsResponse) rs r) =
     fold (unmarshal_struct field_CreateShipmentsResult) (below ''createShipmentsResult'' rs)
       (CreateShipmentsResponse.Result r)"
  by (rule fold_unmarshal_proj) (simp_all add: field_CreateShipmentsResponse_def)

lemma CreateShipments_Items_of_results:
  "CreateShipmentsResult.Items (fold (unmarshal_struct field_CreateShipmentsResult) results x) =
     CreateShipmentsResult.Items x
     @ map (\<lambda>ks. unmarshal_struct field_CreatedShipment ks zero_CreatedShipment)
         (below ''item'' results)"
proof -
  have "CreateShipmentsResult.Items (fold (unmarshal_struct field_CreateShipmentsResult) results x) =
      fold (\<lambda>ks xs. xs @ [unmarshal_struct field_CreatedShipment ks zero_CreatedShipment])
        (below ''item'' results) (CreateShipmentsResult.Items x)"
    by (rule fold_unmarshal_proj) (simp_all add: field_CreateShipmentsResult_def)
  then show ?thesis by (simp only: fold_items)
qed

lemma CreateShipments_decoded:
  assumes "CreateShipments_receives env c shipments resp body"
    and "soap_bodies env body = Some bodies"
  shows "CreateShipments env c shipments =
     (resp, if below ''createShipmentsResponse'' bodies = [] then Inl ErrEmptyCreateShipments
            else Inr (map (\<lambda>ks. unmarshal_struct field_CreatedShipment ks zero_CreatedShipment)
                        (below ''item'' (below ''createShipmentsResult''
                           (below ''createShipmentsResponse'' bodies)))))"
proof -
  obtain reqBody where req: "marshalSOAPRequest env c
        (CreateShipmentsPayload \<lparr>CreateShipmentsRequest.AuthData = authData c,
           Shipments = \<lparr>Shipments.Items = shipments\<rparr>\<rparr>) = Inr reqBody"
    and ans: "doRequest env c reqBody (Endpoint @ ''#createShipments'') ''createShipments''
                = (resp, Inr body)"
    using assms(1) by (rule receivesE)
  obtain envelope where env: "Unmarshal_SOAPResponseEnvelope env body = Inr envelope"
    and body: "SOAPResponseEnvelope.Body envelope =
               fold (unmarshal_struct field_SOAPResponseBody) bodies
                 (SOAPResponseEnvelope.Body zero_SOAPResponseEnvelope)"
    using Unmarshal_SOAPResponseEnvelope_bodies [OF assms(2)] by blast
  show ?thesis
    by (simp add: CreateShipments_def req ans env body CreateShipmentsResponse_of_bodies
          CreateShipments_Result_of_responses CreateShipments_Items_of_results
          alloc_def zero_CreateShipmentsResponse_def list_case_if)
qed

lemma GetMyShipments_Body_of_envelope:
  "GetMyShipmentsEnvelope.Body (unmarshal_struct field_GetMyShipmentsEnvelope kids v) =
     fold (unmarshal_struct field_GetMyShipmentsBody) (children_named ''Body'' kids)
       (GetMyShipmentsEnvelope.Body v)"
  by (rule unmarshal_struct_proj) (simp_all add: field_GetMyShipmentsEnvelope_def)

lemma GetMyShipments_Response_of_bodies:
  "Response (fold (unmarshal_struct field_GetMyShipmentsBody) bodies b) =
     fold (unmarshal_struct field_GetMyShipmentsResponse) (below ''getMyShipmentsResponse'' bodies)
       (Response b)"
  by (rule fold_unmarshal_proj) (simp_all add: field_GetMyShipmentsBody_def)

lemma GetMyShipments_Result_of_responses:
  "GetMyShipmentsResponse.Result (fold (unmarshal_struct field_GetMyShipmentsResponse) rs r) =
     fold (unmarshal_struct field_GetMyShipmentsResult) (below ''getMyShipmentsResult'' rs)
       (GetMyShipmentsResponse.Result r)"
  by (rule fold_unmarshal_proj) (simp_all add: field_GetMyShipmentsResponse_def)

lemma GetMyShipments_Items_of_results:
  "GetMyShipmentsResult.Items (fold (unmarshal_struct field_GetMyShipmentsResult) results x) =
     GetMyShipmentsResult.Items x
     @ map (\<lambda>ks. unmarshal_struct field_ShipmentBasicData ks zero_ShipmentBasicData)
         (below ''item'' results)"
proof -
  have "GetMyShipmentsResult.Items (fold (unmarshal_struct field_GetMyShipmentsResult) results x) =
      fold (\<lambda>ks xs. xs @ [unmarshal_struct field_ShipmentBasicData ks zero_ShipmentBasicData])
        (below ''item'' results) (GetMyShipmentsResult.Items x)"
    by (rule fold_unmarshal_proj) (simp_all add: field_GetMyShipmentsResult_def)
  then show ?thesis by (simp only: fold_items)
qed

lemma GetMyShipments_decoded:
  assumes "GetMyShipments_receives env c createdFrom createdTo offset resp body"
    and "soap_bodies env body = Some bodies"
  shows "GetMyShipments env c createdFrom createdTo offset =
     (resp, Inr (map (\<lambda>ks. unmarshal_struct field_ShipmentBasicData ks zero_ShipmentBasicData)
                   (below ''item'' (below ''getMyShipmentsResult''
                      (below ''getMyShipmentsResponse'' bodies)))))"
proof -
  obtain reqBody where req: "marshalSOAPRequest env c
        (GetMyShipmentsPayload \<lparr>GetMyShipmentsRequest.AuthData = authData c,
           CreatedFrom = createdFrom, CreatedTo = createdTo, Offset = offset\<rparr>) = Inr reqBody"
    and ans: "doRequest env c reqBody (Endpoint @ ''#getMyShipments'') ''getMyShipments''
                = (resp, Inr body)"
    using assms(1) by (rule receivesE)
  obtain envelope where env: "Unmarshal_GetMyShipmentsEnvelope env body = Inr envelope"
    and body: "GetMyShipmentsEnvelope.Body envelope =
               fold (unmarshal_struct field_GetMyShipmentsBody) bodies
                 (GetMyShipmentsEnvelope.Body zero_GetMyShipmentsEnvelope)"
    using assms(2)
    by (auto simp: soap_bodies_def Unmarshal_GetMyShipmentsEnvelope_def
          GetMyShipments_Body_of_envelope split: sum.splits if_splits)
  show ?thesis
    by (simp add: GetMyShipments_def req ans env body GetMyShipments_Response_of_bodies
          GetMyShipments_Result_of_responses GetMyShipments_Items_of_results
          zero_GetMyShipmentsEnvelope_def zero_GetMyShipmentsResponse_def)
qed


subsection \<open>Evaluating the examples\<close>

lemmas below_simps = below_Cons below_Nil children_named_el children_named_Nil

lemma unmarshal_created:
  "unmarshal_struct field_CreatedShipment [el ''shipmentId'' [CharData ident]] zero_CreatedShipment
     = created ident"
  by (simp add: unmarshal_struct_def el_def field_CreatedShipment_def chardata_def
        zero_CreatedShipment_def created_def)

section \<open>The bytes of a request\<close>

lemma escape_of_plain:
  assumes "plain ch"
  shows "escape_of (of_char ch) width = None"
  using assms
  by (simp add: plain_def Let_def escape_of_def isInCharacterRange_def RuneError_def)

lemma DecodeRune_plain:
  assumes "plain ch"
  shows "DecodeRune (of_char ch # rest) = (of_char ch, 1)"
  using assms by (simp add: plain_def Let_def DecodeRune.simps)

lemma escape_from_plain: "list_all plain s \<Longrightarrow> escape_from 0 s = s"
  by (induction s) (simp_all add: DecodeRune_plain escape_of_plain)

lemma EscapeString_plain: "list_all plain s \<Longrightarrow> EscapeString s = s"
  by (simp add: EscapeString_def escape_from_plain)

lemma EscapeString_soapenvNS: "EscapeString soapenvNS = soapenvNS"
  by (rule EscapeString_plain) (simp add: soapenvNS_def plain_def)

lemma EscapeString_dhlNS: "EscapeString dhlNS = dhlNS"
  by (rule EscapeString_plain) (simp add: dhlNS_def plain_def)

lemma is_OutElement_payload: "is_OutElement (marshal_payload fmtFloat p)"
  by (cases p) simp_all

lemma marshalSOAPRequest_bytes:
  "marshalSOAPRequest env c p =
     Inr (xml_Header
          @ envelope_open @ newline
          @ ''  <soapenv:Header></soapenv:Header>'' @ newline
          @ ''  <soapenv:Body>'' @ newline
          @ ''    '' @ print_out 2 (marshal_payload (FormatFloat env) p) @ newline
          @ ''  </soapenv:Body>'' @ newline
          @ ''</soapenv:Envelope>'')"
proof -
  have a1: "print_attr (''xmlns:soapenv'', soapenvNS)
      = '' xmlns:soapenv=\"http://schemas.xmlsoap.org/soap/envelope/\"''"
    by (simp add: print_attr_def EscapeString_soapenvNS) (simp add: soapenvNS_def)
  have a2: "print_attr (''xmlns:ns'', dhlNS)
      = '' xmlns:ns=\"https://dhl24.com.pl/webapi2/provider/service.html?ws=1\"''"
    by (simp add: print_attr_def EscapeString_dhlNS) (simp add: dhlNS_def)
  have two: "Suc (Suc 0) = 2" by simp
  have i0: "indent 0 = []" by (simp add: indent_def)
  have i1: "indent (Suc 0) = ''  ''" by (simp add: indent_def)
  have i2: "indent 2 = ''    ''" by (simp add: indent_def numeral_2_eq_2)
  show ?thesis
    unfolding marshalSOAPRequest_Inr marshal_SOAPEnvelope_def
    by (simp add: a1 a2 is_OutElement_payload i0 i1 i2 envelope_open_def two
          del: One_nat_def)
qed

lemma getVersion_bytes:
  "marshalSOAPRequest env c GetVersionPayload = Inr getVersion_request"
  by (simp add: marshalSOAPRequest_bytes getVersion_request_def xml_Header_def)




section \<open>Days of the calendar\<close>














lemma digits_small: "n < 10 \<Longrightarrow> digits n = [''0123456789'' ! n]"
  by (subst digits.simps) simp

lemma digits_large: "10 \<le> n \<Longrightarrow> digits n = digits (n div 10) @ [''0123456789'' ! (n mod 10)]"
  by (subst digits.simps) simp






lemma dbm_values:
  "days_before_month 1 y = 0"
  "days_before_month 2 y = 31"
  "days_before_month 3 y = (if isLeap y then 60 else 59)"
  "days_before_month 4 y = (if isLeap y then 91 else 90)"
  "days_before_month 5 y = (if isLeap y then 121 else 120)"
  "days_before_month 6 y = (if isLeap y then 152 else 151)"
  "days_before_month 7 y = (if isLeap y then 182 else 181)"
  "days_before_month 8 y = (if isLeap y then 213 else 212)"
  "days_before_month 9 y = (if isLeap y then 244 else 243)"
  "days_before_month 10 y = (if isLeap y then 274 else 273)"
  "days_before_month 11 y = (if isLeap y then 305 else 304)"
  "days_before_month 12 y = (if isLeap y then 335 else 334)"
  by (simp_all add: days_before_month_def daysIn_def upt_rec numeral_eq_Suc)





lemma zero_day:
  "day_number \<lparr>year = - 292277022400, month = 3, day = 1, nsec_of_day = 0\<rparr> = absoluteZeroDay"
  by (simp add: day_number_def days_before_year_def dbm_values isLeap_def absoluteZeroDay_def)










lemmas date_eval = june10_def prev_day_def Format_date_def appendInt_def
  digits_small digits_large valid_date_def daysIn_def same_day_def


section \<open>Reading back what was marshalled\<close>

lemma sanitize_Nil [simp]: "sanitize [] = []"
  by (simp add: sanitize_def)



lemma unmarshal_struct_Nil [simp]: "unmarshal_struct f [] v = v"
  by (simp add: unmarshal_struct_def)

lemma unmarshal_struct_CharData [simp]:
  "unmarshal_struct f (CharData s # kids) v = unmarshal_struct f kids v"
  by (simp add: unmarshal_struct_def)

lemma unmarshal_struct_Element [simp]:
  "unmarshal_struct f (Element n as ks # kids) v = unmarshal_struct f kids (f (Local n) ks v)"
  by (simp add: unmarshal_struct_def)




lemma chardata_text [simp]: "chardata (text_nodes s) = sanitize s"
  by (simp add: chardata_def text_nodes_def)

lemma is_OutElement_leaf [simp]: "is_OutElement (leaf tag s)"
  by (simp add: leaf_def)


lemma fold_Inl:
  "fold (\<lambda>k r. case r of Inl err \<Rightarrow> Inl err | Inr v \<Rightarrow> g k v) kids (Inl e) = Inl e"
  by (induction kids) simp_all

lemma unmarshal_struct_err_Nil [simp]: "unmarshal_struct_err f [] v = Inr v"
  by (simp add: unmarshal_struct_err_def)

lemma unmarshal_struct_err_CharData [simp]:
  "unmarshal_struct_err f (CharData s # kids) v = unmarshal_struct_err f kids v"
  by (simp add: unmarshal_struct_err_def)

lemma unmarshal_struct_err_Element [simp]:
  "unmarshal_struct_err f (Element n as ks # kids) v =
     (case f (Local n) ks v of Inl e \<Rightarrow> Inl e | Inr v' \<Rightarrow> unmarshal_struct_err f kids v')"
  by (cases "f (Local n) ks v") (simp_all add: unmarshal_struct_err_def fold_Inl)








lemma read_back_Element:
  "read_back d (OutElement name attrs kids) =
     [Element (read_name name) (map read_attr attrs) (content_read d (OutElement name attrs kids))]"
  by (simp add: content_read_def)








lemma list_ex_map_Piece [simp]:
  "list_ex is_OutElement (map (marshal_Piece fmtFloat tag) ps) = (ps \<noteq> [])"
  by (cases ps) (simp_all add: marshal_Piece_def)

lemma list_ex_map_ShipmentItem [simp]:
  "list_ex is_OutElement (map (marshal_ShipmentItem fmtFloat tag) xs) = (xs \<noteq> [])"
  by (cases xs) (simp_all add: marshal_ShipmentItem_def)


lemma is_OutElement_Piece [simp]: "is_OutElement (marshal_Piece fmtFloat tag p)"
  by (simp add: marshal_Piece_def)




lemma is_OutElement_tagged [simp]:
  "is_OutElement (marshal_Address tag a)"
  "is_OutElement (marshal_PieceList fmtFloat tag l)"
  "is_OutElement (marshal_Payment tag p)"
  "is_OutElement (marshal_Service tag s)"
  "is_OutElement (marshal_ShipmentItem fmtFloat tag x)"
  by (simp_all add: marshal_Address_def marshal_PieceList_def marshal_Payment_def
        marshal_Service_def marshal_ShipmentItem_def)



lemma children_named_CharData [simp]:
  "children_named t (CharData s # kids) = children_named t kids"
  by (simp add: children_named_Cons)

lemma children_named_Element [simp]:
  "children_named t (Element n as ks # kids) =
     (if Local n = t then [ks] else []) @ children_named t kids"
  by (simp add: children_named_Cons)




lemma is_OutElement_AuthData [simp]: "is_OutElement (marshal_AuthData tag a)"
  by (simp add: marshal_AuthData_def)

lemma is_OutElement_Shipments [simp]: "is_OutElement (marshal_Shipments fmtFloat tag s)"
  by (simp add: marshal_Shipments_def)







section \<open>The version query\<close>

text \<open>
  Claim C7. When the response holds a \<^verbatim>\<open>getVersionResponse\<close> that holds a
  \<^verbatim>\<open>getVersionResult\<close> element, \<^verbatim>\<open>GetVersion\<close> returns the text content of that element
  (of the last one, should the response hold several), and no error. The response
  \<^verbatim>\<open>version_bytes\<close> gives the version 2.13.3.
\<close>

theorem GetVersion_text:
  assumes "GetVersion_receives env c resp body"
    and "soap_bodies env body = Some bodies"
    and "below ''getVersionResult'' (below ''getVersionResponse'' bodies) = texts"
    and "texts \<noteq> []"
  shows "GetVersion env c = (resp, Inr (chardata (last texts)))"
proof -
  have "below ''getVersionResponse'' bodies \<noteq> []"
  proof
    assume "below ''getVersionResponse'' bodies = []"
    with assms(3) have "texts = []" by simp
    with assms(4) show False by simp
  qed
  then show ?thesis
    using GetVersion_decoded [OF assms(1,2)] assms(3,4) by simp
qed

theorem GetVersion_text_witness:
  "GetVersion_receives version_env example_client (Some (ok_response version_bytes)) version_bytes
   \<and> soap_bodies version_env version_bytes
       = Some [[el ''getVersionResponse'' [el ''getVersionResult'' [CharData ''2.13.3'']]]]
   \<and> GetVersion version_env example_client
       = (Some (ok_response version_bytes), Inr ''2.13.3'')"
proof -
  have r: "GetVersion_receives version_env example_client
             (Some (ok_response version_bytes)) version_bytes"
    by (simp add: version_env_def receives_served)
  have b: "soap_bodies version_env version_bytes
             = Some [[el ''getVersionResponse'' [el ''getVersionResult'' [CharData ''2.13.3'']]]]"
    by (simp add: version_env_def soap_bodies_served children_named_el)
  have t: "below ''getVersionResult''
             (below ''getVersionResponse''
                [[el ''getVersionResponse'' [el ''getVersionResult'' [CharData ''2.13.3'']]]])
           = [[CharData ''2.13.3'']]"
    by (simp add: below_simps)
  have "GetVersion version_env example_client
          = (Some (ok_response version_bytes), Inr (chardata (last [[CharData ''2.13.3'']])))"
    using GetVersion_text [OF r b t] by simp
  then show ?thesis using r b by (simp add: chardata_def)
qed

section \<open>Responses that do not decode\<close>



section \<open>Creating shipments\<close>

text \<open>
  Claim C8. \<^verbatim>\<open>CreateShipment\<close> sends the one shipment through \<^verbatim>\<open>CreateShipments\<close>. When
  the response holds a \<^verbatim>\<open>createShipmentsResponse\<close>, it returns the error
  \<^verbatim>\<open>no shipment created\<close> if no confirmation was decoded, and the first decoded
  confirmation otherwise, however many follow it.
\<close>

theorem CreateShipment_first_or_error:
  assumes "CreateShipments_receives env c [shipment] resp body"
    and "soap_bodies env body = Some bodies"
    and "below ''createShipmentsResponse'' bodies \<noteq> []"
    and "map (\<lambda>ks. unmarshal_struct field_CreatedShipment ks zero_CreatedShipment)
           (below ''item'' (below ''createShipmentsResult''
              (below ''createShipmentsResponse'' bodies))) = confirmations"
  shows "CreateShipment env c shipment =
     (resp, case confirmations of
              [] \<Rightarrow> Inl ErrNoShipmentCreated
            | first # others \<Rightarrow> Inr first)"
  using CreateShipments_decoded [OF assms(1,2)] assms(3,4)
  by (simp add: CreateShipment_def split: list.splits)

theorem CreateShipment_first_or_error_witness:
  "CreateShipment created_two_env example_client example_shipment
     = (Some (ok_response created_two_bytes), Inr (created ''11122223333''))
   \<and> CreateShipment created_none_env example_client example_shipment
     = (Some (ok_response created_none_bytes), Inl ErrNoShipmentCreated)"
proof -
  have two: "soap_bodies created_two_env created_two_bytes
      = Some [[el ''createShipmentsResponse'' [el ''createShipmentsResult''
                [el ''item'' [el ''shipmentId'' [CharData ''11122223333'']],
                 el ''item'' [el ''shipmentId'' [CharData ''11122224444'']]]]]]"
    by (simp add: created_two_env_def soap_bodies_served below_simps)
  have none: "soap_bodies created_none_env created_none_bytes
      = Some [[el ''createShipmentsResponse'' [el ''createShipmentsResult'' []]]]"
    by (simp add: created_none_env_def soap_bodies_served below_simps)
  have "CreateShipment created_two_env example_client example_shipment
     = (Some (ok_response created_two_bytes), Inr (created ''11122223333''))"
    using CreateShipment_first_or_error [OF _ two _ refl, of example_client example_shipment
        "Some (ok_response created_two_bytes)"]
    by (simp add: created_two_env_def receives_served below_simps unmarshal_created)
  moreover have "CreateShipment created_none_env example_client example_shipment
     = (Some (ok_response created_none_bytes), Inl ErrNoShipmentCreated)"
    using CreateShipment_first_or_error [OF _ none _ refl, of example_client example_shipment
        "Some (ok_response created_none_bytes)"]
    by (simp add: created_none_env_def receives_served below_simps)
  ultimately show ?thesis by simp
qed

text \<open>
  Claim C3, as stated, fails: \<^verbatim>\<open>CreateShipments\<close> does not compare the number of
  confirmations with the number of shipments. Two shipments answered by one \<^verbatim>\<open>item\<close>
  give a sequence of one confirmation and no error.
\<close>

theorem CreateShipments_short_counterexample:
  "length [example_shipment, example_shipment] = 2
   \<and> CreateShipments created_one_env example_client [example_shipment, example_shipment]
       = (Some (ok_response created_one_bytes), Inr [created ''11122223333''])"
proof -
  have one: "soap_bodies created_one_env created_one_bytes
      = Some [[el ''createShipmentsResponse'' [el ''createShipmentsResult''
                [el ''item'' [el ''shipmentId'' [CharData ''11122223333'']]]]]]"
    by (simp add: created_one_env_def soap_bodies_served below_simps)
  have "CreateShipments created_one_env example_client [example_shipment, example_shipment]
       = (Some (ok_response created_one_bytes), Inr [created ''11122223333''])"
    using CreateShipments_decoded [OF _ one, of example_client "[example_shipment, example_shipment]"
        "Some (ok_response created_one_bytes)"]
    by (simp add: created_one_env_def receives_served below_simps unmarshal_created)
  then show ?thesis by simp
qed

text \<open>
  Claim C3, amended. When the response holds a \<^verbatim>\<open>createShipmentsResponse\<close>,
  \<^verbatim>\<open>CreateShipments\<close> returns the confirmations decoded from its \<^verbatim>\<open>item\<close> elements, in
  document order, whatever their number and whatever the number of shipments sent.
\<close>

theorem CreateShipments_returns_items:
  assumes "CreateShipments_receives env c shipments resp body"
    and "soap_bodies env body = Some bodies"
    and "below ''createShipmentsResponse'' bodies \<noteq> []"
  shows "CreateShipments env c shipments =
     (resp, Inr (map (\<lambda>ks. unmarshal_struct field_CreatedShipment ks zero_CreatedShipment)
                   (below ''item'' (below ''createShipmentsResult''
                      (below ''createShipmentsResponse'' bodies)))))"
  using CreateShipments_decoded [OF assms(1,2)] assms(3) by simp

theorem CreateShipments_returns_items_witness:
  "CreateShipments created_two_env example_client [example_shipment, example_shipment]
     = (Some (ok_response created_two_bytes),
        Inr [created ''11122223333'', created ''11122224444''])
   \<and> CreateShipments created_one_env example_client [example_shipment, example_shipment]
     = (Some (ok_response created_one_bytes), Inr [created ''11122223333''])"
proof -
  have two: "soap_bodies created_two_env created_two_bytes
      = Some [[el ''createShipmentsResponse'' [el ''createShipmentsResult''
                [el ''item'' [el ''shipmentId'' [CharData ''11122223333'']],
                 el ''item'' [el ''shipmentId'' [CharData ''11122224444'']]]]]]"
    by (simp add: created_two_env_def soap_bodies_served below_simps)
  have one: "soap_bodies created_one_env created_one_bytes
      = Some [[el ''createShipmentsResponse'' [el ''createShipmentsResult''
                [el ''item'' [el ''shipmentId'' [CharData ''11122223333'']]]]]]"
    by (simp add: created_one_env_def soap_bodies_served below_simps)
  have "CreateShipments created_two_env example_client [example_shipment, example_shipment]
     = (Some (ok_response created_two_bytes),
        Inr [created ''11122223333'', created ''11122224444''])"
    using CreateShipments_returns_items [OF _ two, of example_client
        "[example_shipment, example_shipment]" "Some (ok_response created_two_bytes)"]
    by (simp add: created_two_env_def receives_served below_simps unmarshal_created)
  moreover have "CreateShipments created_one_env example_client [example_shipment, example_shipment]
     = (Some (ok_response created_one_bytes), Inr [created ''11122223333''])"
    using CreateShipments_returns_items [OF _ one, of example_client
        "[example_shipment, example_shipment]" "Some (ok_response created_one_bytes)"]
    by (simp add: created_one_env_def receives_served below_simps unmarshal_created)
  ultimately show ?thesis by simp
qed

section \<open>Responses without the expected payload\<close>

text \<open>
  Claim C2 holds for \<^verbatim>\<open>GetVersion\<close> and \<^verbatim>\<open>CreateShipments\<close> and fails on
  \<^verbatim>\<open>GetMyShipments\<close>. When the envelope decodes and its body holds none of
  \<^verbatim>\<open>getVersionResponse\<close>, \<^verbatim>\<open>createShipmentsResponse\<close> and \<^verbatim>\<open>getMyShipmentsResponse\<close>,
  the first two return their empty-response error. \<^verbatim>\<open>GetMyShipments\<close> reads the
  response into an envelope of its own (\<^verbatim>\<open>GetMyShipmentsEnvelope\<close>), whose response
  field is no pointer, and tests nothing: it returns the empty list of shipments and
  no error.
\<close>

theorem GetMyShipments_without_slot:
  assumes "soap_bodies env body = Some bodies"
    and "below ''getVersionResponse'' bodies = []"
    and "below ''createShipmentsResponse'' bodies = []"
    and "below ''getMyShipmentsResponse'' bodies = []"
  shows "(GetVersion_receives env c resp1 body
            \<longrightarrow> GetVersion env c = (resp1, Inl ErrEmptyGetVersion))
       \<and> (CreateShipments_receives env c shipments resp2 body
            \<longrightarrow> CreateShipments env c shipments = (resp2, Inl ErrEmptyCreateShipments))
       \<and> (GetMyShipments_receives env c createdFrom createdTo offset resp3 body
            \<longrightarrow> GetMyShipments env c createdFrom createdTo offset = (resp3, Inr []))"
proof (intro conjI impI)
  assume "GetVersion_receives env c resp1 body"
  from GetVersion_decoded [OF this assms(1)] assms(2)
  show "GetVersion env c = (resp1, Inl ErrEmptyGetVersion)" by simp
next
  assume "CreateShipments_receives env c shipments resp2 body"
  from CreateShipments_decoded [OF this assms(1)] assms(3)
  show "CreateShipments env c shipments = (resp2, Inl ErrEmptyCreateShipments)" by simp
next
  assume "GetMyShipments_receives env c createdFrom createdTo offset resp3 body"
  from GetMyShipments_decoded [OF this assms(1)] assms(4)
  show "GetMyShipments env c createdFrom createdTo offset = (resp3, Inr [])" by simp
qed

theorem GetMyShipments_without_slot_witness:
  "soap_bodies empty_env empty_bytes = Some [[]]
   \<and> GetVersion empty_env example_client
       = (Some (ok_response empty_bytes), Inl ErrEmptyGetVersion)
   \<and> CreateShipments empty_env example_client [example_shipment]
       = (Some (ok_response empty_bytes), Inl ErrEmptyCreateShipments)
   \<and> GetMyShipments empty_env example_client ''2024-06-03'' ''2024-06-10'' 0
       = (Some (ok_response empty_bytes), Inr [])"
proof -
  have b: "soap_bodies empty_env empty_bytes = Some [[]]"
    by (simp add: empty_env_def soap_bodies_served below_simps)
  show ?thesis
    using b GetMyShipments_without_slot [OF b, of example_client
        "Some (ok_response empty_bytes)" "[example_shipment]" "Some (ok_response empty_bytes)"
        "''2024-06-03''" "''2024-06-10''" 0 "Some (ok_response empty_bytes)"]
    by (simp add: empty_env_def receives_served below_simps)
qed

text \<open>
  Claim C4, as stated, fails: the response body has no slot for a fault. A response
  that carries a \<^verbatim>\<open>Fault\<close> gives the very error that a response with an empty body
  gives.
\<close>

theorem fault_is_empty_response_counterexample:
  "GetVersion fault_env example_client
     = (Some (ok_response fault_bytes), Inl ErrEmptyGetVersion)
   \<and> GetVersion empty_env example_client
     = (Some (ok_response empty_bytes), Inl ErrEmptyGetVersion)
   \<and> CreateShipments fault_env example_client [example_shipment]
     = (Some (ok_response fault_bytes), Inl ErrEmptyCreateShipments)
   \<and> CreateShipments empty_env example_client [example_shipment]
     = (Some (ok_response empty_bytes), Inl ErrEmptyCreateShipments)"
proof -
  have f: "soap_bodies fault_env fault_bytes
      = Some [[el ''Fault'' [el ''faultcode'' [CharData ''100''],
                             el ''faultstring'' [CharData ''Invalid credentials'']]]]"
    by (simp add: fault_env_def soap_bodies_served below_simps)
  have e: "soap_bodies empty_env empty_bytes = Some [[]]"
    by (simp add: empty_env_def soap_bodies_served below_simps)
  have "GetVersion fault_env example_client
     = (Some (ok_response fault_bytes), Inl ErrEmptyGetVersion)"
    using GetVersion_decoded [OF _ f, of example_client "Some (ok_response fault_bytes)"]
    by (simp add: fault_env_def receives_served below_simps)
  moreover have "GetVersion empty_env example_client
     = (Some (ok_response empty_bytes), Inl ErrEmptyGetVersion)"
    using GetVersion_decoded [OF _ e, of example_client "Some (ok_response empty_bytes)"]
    by (simp add: empty_env_def receives_served below_simps)
  moreover have "CreateShipments fault_env example_client [example_shipment]
     = (Some (ok_response fault_bytes), Inl ErrEmptyCreateShipments)"
    using CreateShipments_decoded [OF _ f, of example_client "[example_shipment]"
        "Some (ok_response fault_bytes)"]
    by (simp add: fault_env_def receives_served below_simps)
  moreover have "CreateShipments empty_env example_client [example_shipment]
     = (Some (ok_response empty_bytes), Inl ErrEmptyCreateShipments)"
    using CreateShipments_decoded [OF _ e, of example_client "[example_shipment]"
        "Some (ok_response empty_bytes)"]
    by (simp add: empty_env_def receives_served below_simps)
  ultimately show ?thesis by simp
qed

text \<open>
  Claim C4, amended. A response that carries a \<^verbatim>\<open>Fault\<close>, and so none of the payloads
  of the operations, makes \<^verbatim>\<open>GetVersion\<close> and \<^verbatim>\<open>CreateShipments\<close> return the
  empty-response error of the operation, whatever the code and the message of the
  fault. That error is another one than the transport and parse errors.
\<close>

theorem fault_reported_as_empty_response:
  assumes "soap_bodies env body = Some bodies"
    and "below ''Fault'' bodies \<noteq> []"
    and "below ''getVersionResponse'' bodies = []"
    and "below ''createShipmentsResponse'' bodies = []"
  shows "(GetVersion_receives env c resp1 body
            \<longrightarrow> GetVersion env c = (resp1, Inl ErrEmptyGetVersion))
       \<and> (CreateShipments_receives env c shipments resp2 body
            \<longrightarrow> CreateShipments env c shipments = (resp2, Inl ErrEmptyCreateShipments))"
  using assms(3,4) GetVersion_decoded [OF _ assms(1)] CreateShipments_decoded [OF _ assms(1)]
  by simp

theorem fault_reported_as_empty_response_witness:
  "soap_bodies fault_env fault_bytes
      = Some [[el ''Fault'' [el ''faultcode'' [CharData ''100''],
                             el ''faultstring'' [CharData ''Invalid credentials'']]]]
   \<and> GetVersion fault_env example_client
       = (Some (ok_response fault_bytes), Inl ErrEmptyGetVersion)
   \<and> CreateShipments fault_env example_client [example_shipment]
       = (Some (ok_response fault_bytes), Inl ErrEmptyCreateShipments)"
proof -
  have f: "soap_bodies fault_env fault_bytes
      = Some [[el ''Fault'' [el ''faultcode'' [CharData ''100''],
                             el ''faultstring'' [CharData ''Invalid credentials'']]]]"
    by (simp add: fault_env_def soap_bodies_served below_simps)
  show ?thesis
    using f fault_reported_as_empty_response [OF f, of example_client
        "Some (ok_response fault_bytes)" "[example_shipment]" "Some (ok_response fault_bytes)"]
    by (simp add: fault_env_def receives_served below_simps)
qed

section \<open>The request envelope\<close>



text \<open>
  Claim C10. The request of \<^verbatim>\<open>GetVersion\<close> holds no field of the configuration: any two
  clients, whatever their credentials, build the same bytes, the ones of
  \<^verbatim>\<open>getVersion_request\<close>, and obtain the same result from the same service.
\<close>

theorem GetVersion_request_without_credentials:
  "marshalSOAPRequest env c1 GetVersionPayload = marshalSOAPRequest env c2 GetVersionPayload
   \<and> marshalSOAPRequest env c1 GetVersionPayload = Inr getVersion_request
   \<and> GetVersion env c1 = GetVersion env c2"
proof -
  have b1: "marshalSOAPRequest env c1 GetVersionPayload = Inr getVersion_request"
    by (rule getVersion_bytes)
  have b2: "marshalSOAPRequest env c2 GetVersionPayload = Inr getVersion_request"
    by (rule getVersion_bytes)
  have "doRequest env c1 getVersion_request (Endpoint @ ''#getVersion'') ''getVersion''
      = doRequest env c2 getVersion_request (Endpoint @ ''#getVersion'') ''getVersion''"
    by (simp add: doRequest_def)
  then have "GetVersion env c1 = GetVersion env c2"
    by (simp add: GetVersion_def b1 b2)
  with b1 b2 show ?thesis by simp
qed

theorem GetVersion_request_without_credentials_witness:
  "authData example_client \<noteq> authData other_client
   \<and> marshalSOAPRequest version_env example_client GetVersionPayload
       = marshalSOAPRequest version_env other_client GetVersionPayload
   \<and> GetVersion version_env example_client = GetVersion version_env other_client"
  using GetVersion_request_without_credentials [of version_env example_client other_client]
  by (simp add: authData_def example_client_def other_client_def NewClient_def)

section \<open>The shipments of the last days\<close>








section \<open>The round trip of a shipment\<close>





end
